theory Spec2Isabelle
  imports Complex_Main
begin

section \<open>Numeric cells\<close>

text \<open>
  The indicator tables of \<^verbatim>\<open>qlib/backtest/report.py\<close> hold numpy/pandas floating-point
  cells. A cell is the missing sentinel \<open>NaN\<close>, an infinity (\<open>Infty True\<close> is \<open>+inf\<close>,
  \<open>Infty False\<close> is \<open>-inf\<close>) or a finite number. Finite numbers are exact reals: rounding,
  overflow and the sign of zero are abstracted away, so "equal to floating-point
  tolerance" reads as equality of reals. The special values follow IEEE 754 as numpy
  applies it: every operation on \<open>NaN\<close> is \<open>NaN\<close>, every comparison with \<open>NaN\<close> is false,
  a non-zero number divided by zero is an infinity and \<open>0 / 0\<close> is \<open>NaN\<close>.
\<close>

datatype fl = NaN | Infty bool | Fin real

fun isnan :: "fl \<Rightarrow> bool" where
  "isnan NaN = True"
| "isnan (Infty s) = False"
| "isnan (Fin x) = False"

fun fadd :: "fl \<Rightarrow> fl \<Rightarrow> fl" where
  "fadd (Fin x) (Fin y) = Fin (x + y)"
| "fadd (Fin x) (Infty t) = Infty t"
| "fadd (Infty s) (Fin y) = Infty s"
| "fadd (Infty s) (Infty t) = (if s = t then Infty s else NaN)"
| "fadd NaN b = NaN"
| "fadd a NaN = NaN"

fun fneg :: "fl \<Rightarrow> fl" where
  "fneg NaN = NaN"
| "fneg (Infty s) = Infty (\<not> s)"
| "fneg (Fin x) = Fin (- x)"

definition fsub :: "fl \<Rightarrow> fl \<Rightarrow> fl" where
  "fsub a b = fadd a (fneg b)"

fun fmul :: "fl \<Rightarrow> fl \<Rightarrow> fl" where
  "fmul (Fin x) (Fin y) = Fin (x * y)"
| "fmul (Fin x) (Infty t) = (if x = 0 then NaN else Infty (t = (0 < x)))"
| "fmul (Infty s) (Fin y) = (if y = 0 then NaN else Infty (s = (0 < y)))"
| "fmul (Infty s) (Infty t) = Infty (s = t)"
| "fmul NaN b = NaN"
| "fmul a NaN = NaN"

fun fdiv :: "fl \<Rightarrow> fl \<Rightarrow> fl" where
  "fdiv (Fin x) (Fin y) =
     (if y = 0 then (if x = 0 then NaN else Infty (0 < x)) else Fin (x / y))"
| "fdiv (Fin x) (Infty t) = Fin 0"
| "fdiv (Infty s) (Fin y) = Infty (s = (0 \<le> y))"
| "fdiv (Infty s) (Infty t) = NaN"
| "fdiv NaN b = NaN"
| "fdiv a NaN = NaN"

fun flt :: "fl \<Rightarrow> fl \<Rightarrow> bool" where
  "flt (Fin x) (Fin y) = (x < y)"
| "flt (Fin x) (Infty t) = t"
| "flt (Infty s) (Fin y) = (\<not> s)"
| "flt (Infty s) (Infty t) = (\<not> s \<and> t)"
| "flt NaN b = False"
| "flt a NaN = False"

text \<open>\<^verbatim>\<open>a <= b\<close>, the comparison that the price filter is contrasted with.\<close>

fun fle :: "fl \<Rightarrow> fl \<Rightarrow> bool" where
  "fle (Fin x) (Fin y) = (x \<le> y)"
| "fle (Fin x) (Infty t) = t"
| "fle (Infty s) (Fin y) = (\<not> s)"
| "fle (Infty s) (Infty t) = (if s then t else True)"
| "fle NaN b = False"
| "fle a NaN = False"

fun fabs :: "fl \<Rightarrow> fl" where
  "fabs NaN = NaN"
| "fabs (Infty s) = Infty True"
| "fabs (Fin x) = Fin \<bar>x\<bar>"

text \<open>The number in a finite cell.\<close>

fun the_fin :: "fl \<Rightarrow> real" where
  "the_fin (Fin x) = x"
| "the_fin (Infty s) = 0"
| "the_fin NaN = 0"

section \<open>Series\<close>

text \<open>
  A \<^verbatim>\<open>pd.Series\<close> is its list of (label, cell) rows. The labels are instrument
  identifiers in the indicator columns and timestamps in the price and volume series
  of the exchange. A label that a series does not carry reads as \<open>NaN\<close> once the series
  is aligned with another one. When two different indexes are aligned pandas orders
  the union of the labels; here the labels of the left operand come first. The order
  of the rows of a series is not observed by any operation of the module.
\<close>

type_synonym inst = string
type_synonym time = int
type_synonym 'k series = "('k \<times> fl) list"

definition keys :: "'k series \<Rightarrow> 'k list" where
  "keys s = map fst s"

definition sget :: "'k series \<Rightarrow> 'k \<Rightarrow> fl" where
  "sget s k = (case map_of s k of None \<Rightarrow> NaN | Some v \<Rightarrow> v)"

definition union_index :: "'k list \<Rightarrow> 'k list \<Rightarrow> 'k list" where
  "union_index a b = a @ filter (\<lambda>k. k \<notin> set a) b"

text \<open>\<^verbatim>\<open>a op b\<close> on two series: aligned on the union of the labels.\<close>

definition align2 :: "(fl \<Rightarrow> fl \<Rightarrow> fl) \<Rightarrow> 'k series \<Rightarrow> 'k series \<Rightarrow> 'k series" where
  "align2 f a b = map (\<lambda>k. (k, f (sget a k) (sget b k))) (union_index (keys a) (keys b))"

text \<open>\<^verbatim>\<open>s op c\<close> and \<^verbatim>\<open>c op s\<close> with a scalar, \<^verbatim>\<open>s.abs()\<close>, \<^verbatim>\<open>s.apply(f)\<close>: cell by cell.\<close>

definition smap :: "(fl \<Rightarrow> fl) \<Rightarrow> 'k series \<Rightarrow> 'k series" where
  "smap f s = map (\<lambda>(k, v). (k, f v)) s"

text \<open>\<^verbatim>\<open>s.replace({old: new})\<close>; \<open>NaN\<close> as \<open>old\<close> matches the missing cells.\<close>

definition replace :: "fl \<Rightarrow> fl \<Rightarrow> 'k series \<Rightarrow> 'k series" where
  "replace old new s = smap (\<lambda>v. if v = old then new else v) s"

text \<open>\<^verbatim>\<open>s.reindex(index)\<close>: the rows of \<open>index\<close>, \<open>NaN\<close> where \<open>s\<close> has no such label.\<close>

definition reindex :: "'k series \<Rightarrow> 'k list \<Rightarrow> 'k series" where
  "reindex s ix = map (\<lambda>k. (k, sget s k)) ix"

text \<open>
  The reductions skip the missing cells (\<^verbatim>\<open>skipna=True\<close>, the default of pandas):
  \<^verbatim>\<open>s.sum()\<close> is 0 on a series without values, \<^verbatim>\<open>s.count()\<close> counts the cells that are
  not \<open>NaN\<close>, \<^verbatim>\<open>s.mean()\<close> is their sum over their count, \<open>NaN\<close> when there is none.
\<close>

definition fsum :: "fl list \<Rightarrow> fl" where
  "fsum vs = foldl fadd (Fin 0) vs"

definition notna :: "'k series \<Rightarrow> fl list" where
  "notna s = filter (\<lambda>v. \<not> isnan v) (map snd s)"

definition ssum :: "'k series \<Rightarrow> fl" where
  "ssum s = fsum (notna s)"

definition scount :: "'k series \<Rightarrow> fl" where
  "scount s = Fin (real (length (notna s)))"

definition smean :: "'k series \<Rightarrow> fl" where
  "smean s = fdiv (ssum s) (scount s)"

section \<open>Metric tables\<close>

text \<open>
  The order indicator of a step is a \<^verbatim>\<open>PandasOrderIndicator\<close>: a dictionary from the
  name of a metric to the series of that metric over the instruments. The class lives
  in the module \<^verbatim>\<open>high_performance_ds.py\<close>; its operations are modelled from section 4.1
  of the specification.
\<close>

datatype error = KeyError | TypeError | NotImplementedError | ValueError

type_synonym table = "string \<rightharpoonup> inst series"

definition bindE :: "error + 'a \<Rightarrow> ('a \<Rightarrow> error + 'b) \<Rightarrow> error + 'b" where
  "bindE m f = (case m of Inl e \<Rightarrow> Inl e | Inr x \<Rightarrow> f x)"

text \<open>
  Modelled from the spec: \<^verbatim>\<open>PandasOrderIndicator.assign\<close> is missing from the sources.
  "Replace the column with the given instrument-to-value mapping. No error on
  overwrite."
\<close>

definition assign :: "string \<Rightarrow> inst series \<Rightarrow> table \<Rightarrow> table" where
  "assign col metric t = t(col \<mapsto> metric)"

text \<open>
  Modelled from the spec: \<^verbatim>\<open>PandasOrderIndicator.transfer\<close> is missing from the sources.
  "Apply \<open>fn\<close> to one or more existing columns (column names are resolved by matching the
  function's declared inputs against existing column names); if \<open>result_name\<close> is given,
  write the result as a new or updated column; if omitted, return the computed value
  directly. Fails with a MissingColumnError if a required column is absent." The
  missing column is the \<^verbatim>\<open>KeyError\<close> of the dictionary lookup. \<open>column\<close> is that lookup;
  \<open>transfer1\<close>, \<open>transfer2\<close> and \<open>transfer3\<close> are the calls with a function of one, two and
  three parameters, whose names are passed next to it; \<open>transfer_to\<close> writes the result.
\<close>

definition column :: "table \<Rightarrow> string \<Rightarrow> error + inst series" where
  "column t n = (case t n of None \<Rightarrow> Inl KeyError | Some s \<Rightarrow> Inr s)"

definition transfer1 :: "(inst series \<Rightarrow> 'a) \<Rightarrow> string \<Rightarrow> table \<Rightarrow> error + 'a" where
  "transfer1 f n1 t = bindE (column t n1) (\<lambda>a. Inr (f a))"

definition transfer2 ::
  "(inst series \<Rightarrow> inst series \<Rightarrow> 'a) \<Rightarrow> string \<Rightarrow> string \<Rightarrow> table \<Rightarrow> error + 'a" where
  "transfer2 f n1 n2 t =
     bindE (column t n1) (\<lambda>a. bindE (column t n2) (\<lambda>b. Inr (f a b)))"

definition transfer3 ::
  "(inst series \<Rightarrow> inst series \<Rightarrow> inst series \<Rightarrow> 'a) \<Rightarrow>
   string \<Rightarrow> string \<Rightarrow> string \<Rightarrow> table \<Rightarrow> error + 'a" where
  "transfer3 f n1 n2 n3 t =
     bindE (column t n1) (\<lambda>a. bindE (column t n2) (\<lambda>b. bindE (column t n3) (\<lambda>c. Inr (f a b c))))"

definition transfer_to :: "error + inst series \<Rightarrow> string \<Rightarrow> table \<Rightarrow> error + table" where
  "transfer_to r new_col t = bindE r (\<lambda>s. Inr (assign new_col s t))"

text \<open>
  Modelled from the spec: \<^verbatim>\<open>PandasOrderIndicator.sum_all_indicators\<close> is missing from the
  sources. "For each metric name, outer-union the instrument keys across all given
  tables, substitute \<open>fill_value\<close> for missing entries, sum element-wise across tables;
  returns one combined column per metric name." A table without the metric is the
  \<^verbatim>\<open>KeyError\<close> of \<^verbatim>\<open>indicator.data[metric]\<close>.
\<close>

definition fillna :: "fl \<Rightarrow> fl \<Rightarrow> fl" where
  "fillna fill_value v = (if isnan v then fill_value else v)"

definition sum_columns :: "fl \<Rightarrow> inst series list \<Rightarrow> inst series" where
  "sum_columns fill_value cols =
     map (\<lambda>k. (k, fsum (map (\<lambda>c. fillna fill_value (sget c k)) cols)))
         (foldl union_index [] (map keys cols))"

fun columns_of :: "table list \<Rightarrow> string \<Rightarrow> error + inst series list" where
  "columns_of [] metric = Inr []"
| "columns_of (t # ts) metric =
     bindE (column t metric) (\<lambda>c. bindE (columns_of ts metric) (\<lambda>cs. Inr (c # cs)))"

fun sum_all_indicators ::
  "table list \<Rightarrow> string list \<Rightarrow> fl \<Rightarrow> error + (string \<times> inst series) list" where
  "sum_all_indicators indicators [] fill_value = Inr []"
| "sum_all_indicators indicators (metric # metrics) fill_value =
     bindE (columns_of indicators metric) (\<lambda>cols.
     bindE (sum_all_indicators indicators metrics fill_value) (\<lambda>metric_dict.
       Inr ((metric, sum_columns fill_value cols) # metric_dict)))"

section \<open>Orders, decisions and the exchange\<close>

text \<open>
  The classes \<^verbatim>\<open>Order\<close>, \<^verbatim>\<open>BaseTradeDecision\<close>, \<^verbatim>\<open>IdxTradeRange\<close> and \<^verbatim>\<open>Exchange\<close> are
  imported from other modules. An order is the record of the
  attributes that the module reads. A decision is its list of orders and its optional
  trade range; a trade range is either an \<^verbatim>\<open>IdxTradeRange\<close> or another range with its
  \<^verbatim>\<open>clip_time_range\<close>. The exchange is the pair of its two queries, with \<^verbatim>\<open>method=None\<close>:
  \<^verbatim>\<open>get_deal_price\<close> answers with nothing, a number or a series over the timestamps, and
  \<^verbatim>\<open>get_volume\<close> with a series over the timestamps.
\<close>

record order =
  stock_id :: inst
  amount_delta :: fl
  deal_amount_delta :: fl
  direction :: fl
  sign :: fl

datatype trade_range = IdxTradeRange | OtherTradeRange "time \<Rightarrow> time \<Rightarrow> time \<times> time"

record decision =
  get_decision :: "order list"
  trade_range :: "trade_range option"

datatype price_result = NoData | Scalar fl | PriceSeries "time series"

record exchange =
  get_deal_price :: "inst \<Rightarrow> time \<Rightarrow> time \<Rightarrow> fl \<Rightarrow> price_result"
  get_volume :: "inst \<Rightarrow> time \<Rightarrow> time \<Rightarrow> time series"

text \<open>
  \<^verbatim>\<open>d[k] = v\<close> on a dictionary that keeps the order of insertion (every \<^verbatim>\<open>dict\<close> and
  \<^verbatim>\<open>OrderedDict\<close> of the module): a key that is present keeps its place and takes the new
  content, a new key goes to the end.
\<close>

definition od_set :: "'k \<Rightarrow> 'v \<Rightarrow> ('k \<times> 'v) list \<Rightarrow> ('k \<times> 'v) list" where
  "od_set k v d =
     (if k \<in> fst ` set d then map (\<lambda>(k', v'). if k' = k then (k', v) else (k', v')) d
      else d @ [(k, v)])"

text \<open>The dictionary filled by a loop (or a comprehension) of assignments \<^verbatim>\<open>d[f x] = g x\<close>.\<close>

definition dict_of :: "('x \<Rightarrow> 'k) \<Rightarrow> ('x \<Rightarrow> 'v) \<Rightarrow> 'x list \<Rightarrow> ('k \<times> 'v) list" where
  "dict_of f g xs = foldl (\<lambda>d x. od_set (f x) (g x) d) [] xs"

section \<open>Order indicators\<close>

text \<open>
  \<^verbatim>\<open>Indicator._update_order_trade_info\<close>: the columns of the innermost level, from the
  tuples \<^verbatim>\<open>(order, _trade_val, _trade_cost, _trade_price)\<close> of the step.
\<close>

type_synonym trade_info = "(order \<times> fl \<times> fl \<times> fl) list"

definition update_order_trade_info :: "trade_info \<Rightarrow> table \<Rightarrow> table" where
  "update_order_trade_info trade_info order_indicator =
     (let oid = (\<lambda>(order, trade_val, trade_cost, trade_price). stock_id order);
          amount = dict_of oid (\<lambda>(order, trade_val, trade_cost, trade_price). amount_delta order) trade_info;
          deal_amount = dict_of oid (\<lambda>(order, trade_val, trade_cost, trade_price). deal_amount_delta order) trade_info;
          trade_price = dict_of oid (\<lambda>(order, trade_val, trade_cost, trade_price). trade_price) trade_info;
          trade_value = dict_of oid (\<lambda>(order, trade_val, trade_cost, trade_price). fmul trade_val (sign order)) trade_info;
          trade_cost = dict_of oid (\<lambda>(order, trade_val, trade_cost, trade_price). trade_cost) trade_info;
          trade_dir = dict_of oid (\<lambda>(order, trade_val, trade_cost, trade_price). direction order) trade_info;
          pa = dict_of oid (\<lambda>(order, trade_val, trade_cost, trade_price). Fin 0) trade_info
      in assign ''pa'' pa
        (assign ''trade_dir'' trade_dir
        (assign ''trade_cost'' trade_cost
        (assign ''trade_value'' trade_value
        (assign ''trade_price'' trade_price
        (assign ''deal_amount'' deal_amount
        (assign ''inner_amount'' amount
        (assign ''amount'' amount order_indicator))))))))"

text \<open>
  \<^verbatim>\<open>Indicator._update_order_fulfill_rate\<close>:
  \<^verbatim>\<open>
  def func(deal_amount, amount):
      # deal_amount is np.NaN when there is no inner decision. So full fill rate is 0.
      tmp_deal_amount = deal_amount.replace({np.NaN: 0})
      return tmp_deal_amount / amount
  self.order_indicator.transfer(func, "ffr")
  \<close>
\<close>

definition ffr_func :: "inst series \<Rightarrow> inst series \<Rightarrow> inst series" where
  "ffr_func deal_amount amount =
     (let tmp_deal_amount = replace NaN (Fin 0) deal_amount
      in align2 fdiv tmp_deal_amount amount)"

definition update_order_fulfill_rate :: "table \<Rightarrow> error + table" where
  "update_order_fulfill_rate order_indicator =
     transfer_to (transfer2 ffr_func ''deal_amount'' ''amount'' order_indicator)
       ''ffr'' order_indicator"

definition update_order_indicators :: "trade_info \<Rightarrow> table \<Rightarrow> error + table" where
  "update_order_indicators trade_info order_indicator =
     update_order_fulfill_rate (update_order_trade_info trade_info order_indicator)"

text \<open>
  \<^verbatim>\<open>Indicator._agg_order_trade_info\<close>. The first loop writes the product into each inner
  indicator itself, so the function returns the inner indicators as it leaves them next
  to the indicator of the step. \<^verbatim>\<open>Order.parse_dir\<close> belongs to another module and is a
  parameter.
\<close>

definition trade_amount_func :: "inst series \<Rightarrow> inst series \<Rightarrow> inst series" where
  "trade_amount_func deal_amount trade_price = align2 fmul deal_amount trade_price"

fun transfer_trade_amount :: "table list \<Rightarrow> error + table list" where
  "transfer_trade_amount [] = Inr []"
| "transfer_trade_amount (indicator # rest) =
     bindE (transfer_to (transfer2 trade_amount_func ''deal_amount'' ''trade_price'' indicator)
              ''trade_price'' indicator) (\<lambda>indicator'.
     bindE (transfer_trade_amount rest) (\<lambda>rest'. Inr (indicator' # rest')))"

definition all_metric :: "string list" where
  "all_metric = [''inner_amount'', ''deal_amount'', ''trade_price'', ''trade_value'',
                 ''trade_cost'', ''trade_dir'']"

definition assign_all :: "(string \<times> inst series) list \<Rightarrow> table \<Rightarrow> table" where
  "assign_all metric_dict t = foldl (\<lambda>t' (metric, s). assign metric s t') t metric_dict"

definition price_func :: "inst series \<Rightarrow> inst series \<Rightarrow> inst series" where
  "price_func trade_price deal_amount =
     (let tmp_deal_amount = replace (Fin 0) NaN deal_amount
      in align2 fdiv trade_price tmp_deal_amount)"

definition func_apply :: "(fl \<Rightarrow> fl) \<Rightarrow> inst series \<Rightarrow> inst series" where
  "func_apply parse_dir trade_dir = smap parse_dir trade_dir"

definition agg_order_trade_info ::
  "(fl \<Rightarrow> fl) \<Rightarrow> table list \<Rightarrow> table \<Rightarrow> error + (table list \<times> table)" where
  "agg_order_trade_info parse_dir inner_order_indicators order_indicator =
     bindE (transfer_trade_amount inner_order_indicators) (\<lambda>inner.
     bindE (sum_all_indicators inner all_metric (Fin 0)) (\<lambda>metric_dict.
     let t1 = assign_all metric_dict order_indicator in
     bindE (transfer_to (transfer2 price_func ''trade_price'' ''deal_amount'' t1)
              ''trade_price'' t1) (\<lambda>t2.
     bindE (transfer_to (transfer1 (func_apply parse_dir) ''trade_dir'' t2)
              ''trade_dir'' t2) (\<lambda>t3.
     Inr (inner, t3)))))"

text \<open>\<^verbatim>\<open>Indicator._update_trade_amount\<close>.\<close>

definition update_trade_amount :: "decision \<Rightarrow> table \<Rightarrow> table" where
  "update_trade_amount outer_trade_decision order_indicator =
     (let dec = get_decision outer_trade_decision
      in if length dec = 0 then assign ''amount'' [] order_indicator
         else assign ''amount'' (dict_of stock_id amount_delta dec) order_indicator)"

text \<open>
  \<^verbatim>\<open>Indicator._agg_order_price_advantage\<close>:
  \<^verbatim>\<open>
  if_empty = self.order_indicator.transfer(if_empty_func)     # trade_price.empty
  if not if_empty:
      def func(trade_dir, trade_price, base_price):
          sign = 1 - trade_dir * 2
          return sign * (trade_price / base_price - 1)
      self.order_indicator.transfer(func, "pa")
  else:
      self.order_indicator.assign("pa", {})
  \<close>
\<close>

definition if_empty_func :: "inst series \<Rightarrow> bool" where
  "if_empty_func trade_price = (trade_price = [])"

definition pa_func :: "inst series \<Rightarrow> inst series \<Rightarrow> inst series \<Rightarrow> inst series" where
  "pa_func trade_dir trade_price base_price =
     (let sgn_s = smap (\<lambda>d. fsub (Fin 1) (fmul d (Fin 2))) trade_dir
      in align2 fmul sgn_s (smap (\<lambda>q. fsub q (Fin 1)) (align2 fdiv trade_price base_price)))"

definition agg_order_price_advantage :: "table \<Rightarrow> error + table" where
  "agg_order_price_advantage order_indicator =
     bindE (transfer1 if_empty_func ''trade_price'' order_indicator) (\<lambda>if_empty.
       if \<not> if_empty then
         transfer_to (transfer3 pa_func ''trade_dir'' ''trade_price'' ''base_price'' order_indicator)
           ''pa'' order_indicator
       else Inr (assign ''pa'' [] order_indicator))"

section \<open>The baseline price and volume\<close>

text \<open>
  \<^verbatim>\<open>pa_config\<close> is a dictionary; the module reads its entries \<^verbatim>\<open>"agg"\<close>, \<^verbatim>\<open>"price"\<close> and
  \<^verbatim>\<open>"weight_method"\<close> with \<^verbatim>\<open>get\<close>, so each of them may be absent.
\<close>

record pa_config =
  agg_opt :: "string option"
  price_opt :: "string option"
  weight_method_opt :: "string option"

text \<open>\<^verbatim>\<open>str.lower\<close>, on the ASCII letters.\<close>

definition lower_char :: "char \<Rightarrow> char" where
  "lower_char c =
     (let n = (of_char c :: nat) in if 65 \<le> n \<and> n \<le> 90 then char_of (n + 32) else c)"

definition lower :: "string \<Rightarrow> string" where
  "lower s = map lower_char s"

text \<open>
  \<^verbatim>\<open>Indicator._get_base_vol_pri\<close>. \<open>epsilon\<close> is the literal \<^verbatim>\<open>1e-08\<close>. The function
  returns a pair, \<^verbatim>\<open>(None, None)\<close> when the exchange has no data for the window;
  \<open>as_series\<close> is the answer of the exchange as a series, a number becoming the series of
  that number at the start of the window.
  \<^verbatim>\<open>
  agg = pa_config.get("agg", "twap").lower()
  price = pa_config.get("price", "deal_price").lower()
  if decision.trade_range is not None:
      if isinstance(decision.trade_range, IdxTradeRange):
          raise TypeError(f"IdxTradeRange is not supported")
      trade_start_time, trade_end_time = decision.trade_range.clip_time_range(...)
  if price == "deal_price":
      price_s = trade_exchange.get_deal_price(inst, trade_start_time, trade_end_time, ...)
  else:
      raise NotImplementedError(f"This type of input is not supported")
  if price_s is None:
      return None, None
  if isinstance(price_s, (int, float)):
      price_s = pd.Series(price_s, index=[trade_start_time])
  price_s = price_s[~(price_s < 1e-08)]  # remove zero and negative values.
  if agg == "vwap":
      volume_s = trade_exchange.get_volume(inst, trade_start_time, trade_end_time, method=None)
      volume_s = volume_s.reindex(price_s.index)
  elif agg == "twap":
      volume_s = pd.Series(1, index=price_s.index)
  else:
      raise NotImplementedError(f"This type of input is not supported")
  base_volume = volume_s.sum().item()
  base_price = ((price_s * volume_s).sum() / base_volume).item()
  return base_price, base_volume
  \<close>
\<close>

definition epsilon :: fl where
  "epsilon = Fin (1 / 10 ^ 8)"

definition price_filter :: "time series \<Rightarrow> time series" where
  "price_filter price_s = filter (\<lambda>(t, p). \<not> flt p epsilon) price_s"

definition as_series :: "price_result \<Rightarrow> time \<Rightarrow> time series option" where
  "as_series r trade_start_time =
     (case r of
        NoData \<Rightarrow> None
      | Scalar x \<Rightarrow> Some [(trade_start_time, x)]
      | PriceSeries ps \<Rightarrow> Some ps)"

definition get_base_vol_pri ::
  "inst \<Rightarrow> time \<Rightarrow> time \<Rightarrow> fl \<Rightarrow> decision \<Rightarrow> exchange \<Rightarrow> pa_config \<Rightarrow>
   error + (fl option \<times> fl option)" where
  "get_base_vol_pri inst trade_start_time trade_end_time dir dec trade_exchange pa_config =
     (let agg = lower (case agg_opt pa_config of None \<Rightarrow> ''twap'' | Some a \<Rightarrow> a);
          price = lower (case price_opt pa_config of None \<Rightarrow> ''deal_price'' | Some p \<Rightarrow> p)
      in bindE (case trade_range dec of
                  None \<Rightarrow> Inr (trade_start_time, trade_end_time)
                | Some IdxTradeRange \<Rightarrow> Inl TypeError
                | Some (OtherTradeRange clip_time_range) \<Rightarrow>
                    Inr (clip_time_range trade_start_time trade_end_time))
           (\<lambda>(trade_start_time, trade_end_time).
         if price = ''deal_price'' then
           (case as_series (get_deal_price trade_exchange inst trade_start_time trade_end_time dir)
                   trade_start_time of
              None \<Rightarrow> Inr (None, None)
            | Some price_s0 \<Rightarrow>
               (let price_s = price_filter price_s0
                in bindE (if agg = ''vwap'' then
                            Inr (reindex (get_volume trade_exchange inst trade_start_time trade_end_time)
                                   (keys price_s))
                          else if agg = ''twap'' then Inr (map (\<lambda>k. (k, Fin 1)) (keys price_s))
                          else Inl NotImplementedError)
                     (\<lambda>volume_s.
                        let base_volume = ssum volume_s;
                            base_price = fdiv (ssum (align2 fmul price_s volume_s)) base_volume
                        in Inr (Some base_price, Some base_volume))))
         else Inl NotImplementedError))"

text \<open>
  Modelled from the spec: \<^verbatim>\<open>PandasOrderIndicator.get_metric_series\<close> is missing from the
  sources. Step 7 of section 4.4 reads the baseline of a child "reindexed onto the
  current instrument set" and falls back to the market query for every instrument
  without one, also below a child of the innermost level, which never holds a baseline
  column: a column that the table lacks reads as the empty series.
\<close>

definition get_metric_series :: "table \<Rightarrow> string \<Rightarrow> inst series" where
  "get_metric_series t metric = (case t metric of None \<Rightarrow> [] | Some s \<Rightarrow> s)"

text \<open>
  \<^verbatim>\<open>Indicator._agg_base_price\<close>. \<open>base_loop\<close> is the loop over the instruments for one
  inner indicator, \<open>base_children\<close> the loop over the inner indicators paired with their
  decisions, \<open>row_sum\<close> is \<^verbatim>\<open>pd.concat(cols, axis=1).sum(axis=1)\<close>. \<^verbatim>\<open>pd.concat\<close> of an empty
  list raises \<^verbatim>\<open>ValueError\<close>.
\<close>

fun base_loop ::
  "(inst \<Rightarrow> fl \<Rightarrow> error + (fl option \<times> fl option)) \<Rightarrow> (fl \<times> fl \<times> inst \<times> fl) list \<Rightarrow>
   inst series \<times> inst series \<Rightarrow> error + (inst series \<times> inst series)" where
  "base_loop resolve [] acc = Inr acc"
| "base_loop resolve ((pr, v, inst, dir) # rest) (bp_new, bv_new) =
     (if isnan pr then
        bindE (resolve inst dir) (\<lambda>(bp_tmp, bv_tmp).
          case (bp_tmp, bv_tmp) of
            (Some bp, Some bv) \<Rightarrow>
              base_loop resolve rest (od_set inst bp bp_new, od_set inst bv bv_new)
          | _ \<Rightarrow> base_loop resolve rest (bp_new, bv_new))
      else base_loop resolve rest (od_set inst pr bp_new, od_set inst v bv_new))"

fun base_children ::
  "exchange \<Rightarrow> pa_config \<Rightarrow> inst series \<Rightarrow> (table \<times> decision \<times> time \<times> time) list \<Rightarrow>
   error + (inst series list \<times> inst series list)" where
  "base_children trade_exchange pa_config trade_dir [] = Inr ([], [])"
| "base_children trade_exchange pa_config trade_dir ((oi, dec, start_time, end_time) # rest) =
     (let bp_s = reindex (get_metric_series oi ''base_price'') (keys trade_dir);
          bv_s = reindex (get_metric_series oi ''base_volume'') (keys trade_dir)
      in bindE (base_loop
                  (\<lambda>inst dir. get_base_vol_pri inst start_time end_time dir dec trade_exchange pa_config)
                  (zip (map snd bp_s) (zip (map snd bv_s) trade_dir)) ([], []))
           (\<lambda>(bp_new, bv_new).
         bindE (base_children trade_exchange pa_config trade_dir rest) (\<lambda>(bp_all, bv_all).
           Inr (bp_new # bp_all, bv_new # bv_all))))"

definition row_sum :: "inst series list \<Rightarrow> inst series" where
  "row_sum cols =
     map (\<lambda>k. (k, fsum (filter (\<lambda>v. \<not> isnan v) (map (\<lambda>c. sget c k) cols))))
         (foldl union_index [] (map keys cols))"

definition agg_base_price ::
  "table list \<Rightarrow> (decision \<times> time \<times> time) list \<Rightarrow> exchange \<Rightarrow> pa_config \<Rightarrow> table \<Rightarrow>
   error + table" where
  "agg_base_price inner_order_indicators decision_list trade_exchange pa_config order_indicator =
     (let trade_dir = get_metric_series order_indicator ''trade_dir''
      in if length trade_dir > 0 then
           bindE (base_children trade_exchange pa_config trade_dir
                    (zip inner_order_indicators decision_list)) (\<lambda>(bp_all, bv_all).
             if bp_all = [] then Inl ValueError
             else
               (let base_volume = row_sum bv_all
                in Inr (assign ''base_price''
                          (align2 fdiv (row_sum (map2 (align2 fmul) bp_all bv_all)) base_volume)
                          (assign ''base_volume'' base_volume order_indicator))))
         else Inr order_indicator)"

text \<open>
  \<^verbatim>\<open>Indicator.agg_order_indicators\<close>. \<^verbatim>\<open>indicator_config\<close> is a dictionary read with
  \<^verbatim>\<open>get\<close>: \<^verbatim>\<open>"ffr_config"\<close> is read for its \<^verbatim>\<open>"weight_method"\<close> only.
\<close>

record indicator_config =
  ffr_weight_method_opt :: "string option"
  pa_config_opt :: "pa_config option"

definition get_pa_config :: "indicator_config \<Rightarrow> pa_config" where
  "get_pa_config indicator_config =
     (case pa_config_opt indicator_config of
        None \<Rightarrow> \<lparr>agg_opt = None, price_opt = None, weight_method_opt = None\<rparr>
      | Some c \<Rightarrow> c)"

definition agg_order_indicators ::
  "(fl \<Rightarrow> fl) \<Rightarrow> table list \<Rightarrow> (decision \<times> time \<times> time) list \<Rightarrow> decision \<Rightarrow> exchange \<Rightarrow>
   indicator_config \<Rightarrow> table \<Rightarrow> error + (table list \<times> table)" where
  "agg_order_indicators parse_dir inner_order_indicators decision_list outer_trade_decision
       trade_exchange indicator_config order_indicator =
     bindE (agg_order_trade_info parse_dir inner_order_indicators order_indicator) (\<lambda>(inner, t1).
     let t2 = update_trade_amount outer_trade_decision t1 in
     bindE (update_order_fulfill_rate t2) (\<lambda>t3.
     let pa_config = get_pa_config indicator_config in
     bindE (agg_base_price inner decision_list trade_exchange pa_config t3) (\<lambda>t4.
     bindE (agg_order_price_advantage t4) (\<lambda>t5.
     Inr (inner, t5)))))"

section \<open>The summary of a step\<close>

text \<open>
  \<^verbatim>\<open>Indicator._cal_trade_fulfill_rate\<close> and \<^verbatim>\<open>Indicator._cal_trade_price_advantage\<close> choose
  among the same three reductions: \<^verbatim>\<open>m.mean()\<close>, and
  \<^verbatim>\<open>(m * w.abs()).sum() / (w.abs().sum())\<close> with \<open>w\<close> the column \<^verbatim>\<open>deal_amount\<close> or
  \<^verbatim>\<open>trade_value\<close>.
\<close>

definition weighted_func :: "inst series \<Rightarrow> inst series \<Rightarrow> fl" where
  "weighted_func m w = fdiv (ssum (align2 fmul m (smap fabs w))) (ssum (smap fabs w))"

definition cal_trade_fulfill_rate :: "string \<Rightarrow> table \<Rightarrow> error + fl" where
  "cal_trade_fulfill_rate weight_method order_indicator =
     (if weight_method = ''mean'' then transfer1 smean ''ffr'' order_indicator
      else if weight_method = ''amount_weighted'' then
        transfer2 weighted_func ''ffr'' ''deal_amount'' order_indicator
      else if weight_method = ''value_weighted'' then
        transfer2 weighted_func ''ffr'' ''trade_value'' order_indicator
      else Inl ValueError)"

definition cal_trade_price_advantage :: "string \<Rightarrow> table \<Rightarrow> error + fl" where
  "cal_trade_price_advantage weight_method order_indicator =
     (if weight_method = ''mean'' then transfer1 smean ''pa'' order_indicator
      else if weight_method = ''amount_weighted'' then
        transfer2 weighted_func ''pa'' ''deal_amount'' order_indicator
      else if weight_method = ''value_weighted'' then
        transfer2 weighted_func ''pa'' ''trade_value'' order_indicator
      else Inl ValueError)"

text \<open>\<^verbatim>\<open>(pa > 0).astype(int).sum() / pa.count()\<close>\<close>

definition positive_func :: "inst series \<Rightarrow> fl" where
  "positive_func pa =
     fdiv (Fin (real (length (filter (\<lambda>v. flt (Fin 0) v) (map snd pa))))) (scount pa)"

definition cal_trade_positive_rate :: "table \<Rightarrow> error + fl" where
  "cal_trade_positive_rate order_indicator = transfer1 positive_func ''pa'' order_indicator"

definition cal_deal_amount :: "table \<Rightarrow> error + fl" where
  "cal_deal_amount order_indicator =
     transfer1 (\<lambda>deal_amount. ssum (smap fabs deal_amount)) ''deal_amount'' order_indicator"

definition cal_trade_value :: "table \<Rightarrow> error + fl" where
  "cal_trade_value order_indicator =
     transfer1 (\<lambda>trade_value. ssum (smap fabs trade_value)) ''trade_value'' order_indicator"

definition cal_trade_order_count :: "table \<Rightarrow> error + fl" where
  "cal_trade_order_count order_indicator = transfer1 scount ''amount'' order_indicator"

text \<open>
  The \<^verbatim>\<open>Indicator\<close> object: the table and the summary of the current step, and the two
  histories, each an \<^verbatim>\<open>OrderedDict\<close> keyed by the start time of the step.
\<close>

type_synonym trade_indicator = "(string \<times> fl) list"

record indicator =
  order_indicator :: table
  order_indicator_his :: "(time \<times> table) list"
  trade_indicator :: trade_indicator
  trade_indicator_his :: "(time \<times> trade_indicator) list"

definition init_indicator :: indicator where
  "init_indicator =
     \<lparr>order_indicator = Map.empty, order_indicator_his = [],
      trade_indicator = [], trade_indicator_his = []\<rparr>"

definition reset :: "indicator \<Rightarrow> indicator" where
  "reset self = self\<lparr>order_indicator := Map.empty, trade_indicator := []\<rparr>"

definition get_ffr_weight_method :: "indicator_config \<Rightarrow> string" where
  "get_ffr_weight_method indicator_config =
     (case ffr_weight_method_opt indicator_config of None \<Rightarrow> ''mean'' | Some m \<Rightarrow> m)"

definition get_pa_weight_method :: "indicator_config \<Rightarrow> string" where
  "get_pa_weight_method indicator_config =
     (case weight_method_opt (get_pa_config indicator_config) of None \<Rightarrow> ''mean'' | Some m \<Rightarrow> m)"

text \<open>
  \<^verbatim>\<open>Indicator.cal_trade_indicators\<close>: the six reductions, then the six entries of the
  summary. The optional printing of the summary is left out.
\<close>

definition cal_trade_indicators :: "indicator_config \<Rightarrow> indicator \<Rightarrow> error + indicator" where
  "cal_trade_indicators indicator_config self =
     (let t = order_indicator self in
      bindE (cal_trade_fulfill_rate (get_ffr_weight_method indicator_config) t) (\<lambda>fulfill_rate.
      bindE (cal_trade_price_advantage (get_pa_weight_method indicator_config) t) (\<lambda>price_advantage.
      bindE (cal_trade_positive_rate t) (\<lambda>positive_rate.
      bindE (cal_deal_amount t) (\<lambda>deal_amount.
      bindE (cal_trade_value t) (\<lambda>trade_value.
      bindE (cal_trade_order_count t) (\<lambda>order_count.
      Inr (self\<lparr>trade_indicator :=
             od_set ''count'' order_count
            (od_set ''value'' trade_value
            (od_set ''deal_amount'' deal_amount
            (od_set ''pos'' positive_rate
            (od_set ''pa'' price_advantage
            (od_set ''ffr'' fulfill_rate (trade_indicator self))))))\<rparr>))))))))"

text \<open>
  \<^verbatim>\<open>Indicator.get_order_indicator\<close> (with \<^verbatim>\<open>raw=False\<close>: the dictionary of the columns),
  \<^verbatim>\<open>Indicator.get_trade_indicator\<close> and \<^verbatim>\<open>Indicator.record\<close>:
  \<^verbatim>\<open>
  self.order_indicator_his[trade_start_time] = self.get_order_indicator()
  self.trade_indicator_his[trade_start_time] = self.get_trade_indicator()
  \<close>
\<close>

definition get_order_indicator :: "indicator \<Rightarrow> table" where
  "get_order_indicator self = order_indicator self"

definition get_trade_indicator :: "indicator \<Rightarrow> trade_indicator" where
  "get_trade_indicator self = trade_indicator self"

definition indicator_record :: "time \<Rightarrow> indicator \<Rightarrow> indicator" where
  "indicator_record trade_start_time self =
     self\<lparr>order_indicator_his :=
            od_set trade_start_time (get_order_indicator self) (order_indicator_his self),
          trade_indicator_his :=
            od_set trade_start_time (get_trade_indicator self) (trade_indicator_his self)\<rparr>"

text \<open>
  \<^verbatim>\<open>Indicator.generate_trade_indicators_dataframe\<close> is
  \<^verbatim>\<open>pd.DataFrame.from_dict(self.trade_indicator_his, orient="index")\<close>. On a dictionary of
  dictionaries pandas (1.x) first transposes the data,
  \<^verbatim>\<open>
  new_data = collections.defaultdict(dict)
  for index, s in data.items():
      for col, v in s.items():
          new_data[col][index] = v
  \<close>
  and builds the frame from the dictionary of the columns. The index of the frame is
  the union of the keys of the columns: the sorted keys when there is one column, the
  keys in the order of their first appearance when there are several, and no row at
  all when there is no column. A cell that a column lacks is missing. The frame is the
  list of its rows, each with its label.
\<close>

definition nested_entry ::
  "time \<Rightarrow> (string \<times> time series) list \<Rightarrow> string \<times> fl \<Rightarrow> (string \<times> time series) list" where
  "nested_entry index new_data e =
     (case e of (col, v) \<Rightarrow>
        od_set col (od_set index v (case map_of new_data col of None \<Rightarrow> [] | Some m \<Rightarrow> m))
          new_data)"

definition from_nested_dict :: "(time \<times> trade_indicator) list \<Rightarrow> (string \<times> time series) list" where
  "from_nested_dict data =
     foldl (\<lambda>new_data (index, s). foldl (nested_entry index) new_data s) [] data"

definition unique_multiple_list :: "time list list \<Rightarrow> time list" where
  "unique_multiple_list ls =
     foldl (\<lambda>seen k. if k \<in> set seen then seen else seen @ [k]) [] (concat ls)"

definition extract_index :: "time list list \<Rightarrow> time list" where
  "extract_index indexes =
     (case indexes of [] \<Rightarrow> [] | [ix] \<Rightarrow> sort ix | _ \<Rightarrow> unique_multiple_list indexes)"

definition from_dict :: "(time \<times> trade_indicator) list \<Rightarrow> (time \<times> trade_indicator) list" where
  "from_dict data =
     (let new_data = from_nested_dict data;
          index = extract_index (map (\<lambda>(col, m). keys m) new_data)
      in map (\<lambda>t. (t, map (\<lambda>(col, m). (col, sget m t)) new_data)) index)"

definition generate_trade_indicators_dataframe :: "indicator \<Rightarrow> (time \<times> trade_indicator) list" where
  "generate_trade_indicators_dataframe self = from_dict (trade_indicator_his self)"

text \<open>A run of the step driver: the steps are archived one after the other.\<close>

definition archive_steps :: "(time \<times> trade_indicator) list \<Rightarrow> indicator \<Rightarrow> indicator" where
  "archive_steps steps self =
     foldl (\<lambda>ind (trade_start_time, summary).
              indicator_record trade_start_time (ind\<lparr>trade_indicator := summary\<rparr>)) self steps"

section \<open>The account report\<close>

text \<open>
  \<^verbatim>\<open>Report\<close>: nine histories keyed by the start time of the step (the attribute
  \<^verbatim>\<open>values\<close> is the field \<open>stock_values\<close>), the time of the latest step and the benchmark
  series. A benchmark entry may be \<^verbatim>\<open>None\<close>: \<^verbatim>\<open>_sample_benchmark\<close> answers \<^verbatim>\<open>None\<close> for a
  report without benchmark.
\<close>

record report =
  accounts :: "(time \<times> fl) list"
  returns :: "(time \<times> fl) list"
  total_turnovers :: "(time \<times> fl) list"
  turnovers :: "(time \<times> fl) list"
  total_costs :: "(time \<times> fl) list"
  costs :: "(time \<times> fl) list"
  stock_values :: "(time \<times> fl) list"
  cashes :: "(time \<times> fl) list"
  benches :: "(time \<times> fl option) list"
  latest_report_time :: "time option"
  bench :: "time series option"

text \<open>
  The keyword arguments of \<^verbatim>\<open>Report.update_report_record\<close>; each defaults to \<^verbatim>\<open>None\<close>.
\<close>

record report_args =
  trade_start_time :: "time option"
  trade_end_time :: "time option"
  account_value :: "fl option"
  cash :: "fl option"
  return_rate :: "fl option"
  total_turnover :: "fl option"
  turnover_rate :: "fl option"
  total_cost :: "fl option"
  cost_rate :: "fl option"
  stock_value :: "fl option"
  bench_value :: "fl option"

text \<open>
  \<^verbatim>\<open>Report._sample_benchmark\<close>. \<^verbatim>\<open>resam_ts_data\<close> comes from \<^verbatim>\<open>qlib.utils.resam\<close> and is a
  parameter: it answers \<^verbatim>\<open>None\<close> or the product of the changes over the window.
  \<^verbatim>\<open>
  if self.bench is None:
      return None
  _ret = resam_ts_data(bench, trade_start_time, trade_end_time, method=cal_change)
  return 0.0 if _ret is None else _ret - 1
  \<close>
\<close>

definition sample_benchmark ::
  "(time series \<Rightarrow> time \<Rightarrow> time option \<Rightarrow> fl option) \<Rightarrow> report \<Rightarrow> time \<Rightarrow> time option \<Rightarrow>
   fl option" where
  "sample_benchmark resam_ts_data self start_time end_time =
     (case bench self of
        None \<Rightarrow> None
      | Some b \<Rightarrow>
          (case resam_ts_data b start_time end_time of
             None \<Rightarrow> Some (Fin 0)
           | Some r \<Rightarrow> Some (fsub r (Fin 1))))"

text \<open>
  \<^verbatim>\<open>Report.update_report_record\<close>. The result is the exception raised, if any, and the
  report as the call leaves it.
  \<^verbatim>\<open>
  if None in [trade_start_time, account_value, cash, return_rate, total_turnover,
              turnover_rate, total_cost, cost_rate, stock_value]:
      raise ValueError(...)
  if trade_end_time is None and bench_value is None:
      raise ValueError("Both trade_end_time and bench_value is None, benchmark is not usable.")
  elif bench_value is None:
      bench_value = self._sample_benchmark(self.bench, trade_start_time, trade_end_time)
  self.accounts[trade_start_time] = account_value
  ...
  self.benches[trade_start_time] = bench_value
  self.latest_report_time = trade_start_time
  \<close>
\<close>

definition update_report_record ::
  "(time series \<Rightarrow> time \<Rightarrow> time option \<Rightarrow> fl option) \<Rightarrow> report_args \<Rightarrow> report \<Rightarrow>
   error option \<times> report" where
  "update_report_record resam_ts_data a self =
     (case (trade_start_time a, account_value a, cash a, return_rate a, total_turnover a,
            turnover_rate a, total_cost a, cost_rate a, stock_value a) of
        (Some t, Some av, Some c, Some rr, Some tt, Some tr, Some tc, Some cr, Some sv) \<Rightarrow>
          (if trade_end_time a = None \<and> bench_value a = None then (Some ValueError, self)
           else
             (let bv = (case bench_value a of
                          None \<Rightarrow> sample_benchmark resam_ts_data self t (trade_end_time a)
                        | Some b \<Rightarrow> Some b)
              in (None,
                  self\<lparr>accounts := od_set t av (accounts self),
                       returns := od_set t rr (returns self),
                       total_turnovers := od_set t tt (total_turnovers self),
                       turnovers := od_set t tr (turnovers self),
                       total_costs := od_set t tc (total_costs self),
                       costs := od_set t cr (costs self),
                       stock_values := od_set t sv (stock_values self),
                       cashes := od_set t c (cashes self),
                       benches := od_set t bv (benches self),
                       latest_report_time := Some t\<rparr>)))
      | _ \<Rightarrow> (Some ValueError, self))"

section \<open>Properties of series\<close>

lemma set_union_index: "set (union_index a b) = set a \<union> set b"
  by (auto simp: union_index_def)

lemma keys_align2: "keys (align2 f a b) = union_index (keys a) (keys b)"
  by (simp add: align2_def keys_def comp_def)

lemma keys_smap: "keys (smap f s) = keys s"
  by (simp add: smap_def keys_def comp_def case_prod_beta)

lemma sget_absent: "k \<notin> set (keys s) \<Longrightarrow> sget s k = NaN"
  by (simp add: sget_def keys_def map_of_eq_None_iff[THEN iffD2])

lemma map_of_tabulate: "map_of (map (\<lambda>k. (k, g k)) ks) k = (if k \<in> set ks then Some (g k) else None)"
  by (induction ks) auto

lemma sget_align2:
  "sget (align2 f a b) k =
     (if k \<in> set (keys a) \<union> set (keys b) then f (sget a k) (sget b k) else NaN)"
proof -
  have "map_of (align2 f a b) k =
          (if k \<in> set (keys a) \<union> set (keys b) then Some (f (sget a k) (sget b k)) else None)"
    by (simp add: align2_def map_of_tabulate set_union_index)
  then show ?thesis
    by (simp add: sget_def[of "align2 f a b"])
qed

lemma sget_smap: "sget (smap f s) k = (if k \<in> set (keys s) then f (sget s k) else NaN)"
proof -
  have m: "map_of (smap f s) k = map_option f (map_of s k)"
    by (induction s) (auto simp: smap_def)
  show ?thesis
  proof (cases "map_of s k")
    case None
    then have "k \<notin> set (keys s)"
      by (simp add: keys_def map_of_eq_None_iff)
    with None m show ?thesis
      by (simp add: sget_def)
  next
    case (Some v)
    then have "k \<in> set (keys s)"
      by (auto simp: keys_def dest: map_of_SomeD intro: rev_image_eqI)
    with Some m show ?thesis
      by (simp add: sget_def)
  qed
qed

lemma keys_replace: "keys (replace old new s) = keys s"
  by (simp add: replace_def keys_smap)

lemma sget_replace:
  "sget (replace old new s) k =
     (if k \<in> set (keys s) then (if sget s k = old then new else sget s k) else NaN)"
  by (simp add: replace_def sget_smap)

lemma length_keys: "length (keys s) = length s"
  by (simp add: keys_def)

lemma fsum_Fin: "fsum (map Fin xs) = Fin (sum_list xs)"
proof -
  have "foldl fadd (Fin a) (map Fin xs) = Fin (a + sum_list xs)" for a
    by (induction xs arbitrary: a) (simp_all add: algebra_simps)
  from this[of 0] show ?thesis
    by (simp add: fsum_def)
qed

lemma sget_distinct:
  "distinct (keys s) \<Longrightarrow> (k, v) \<in> set s \<Longrightarrow> sget s k = v"
  by (simp add: sget_def keys_def)

lemma union_index_subset: "set b \<subseteq> set a \<Longrightarrow> union_index a b = a"
  by (auto simp: union_index_def filter_empty_conv)

lemma align2_same_labels:
  assumes "distinct (keys a)" and "set (keys b) \<subseteq> set (keys a)"
  shows "align2 f a b = map (\<lambda>(k, v). (k, f v (sget b k))) a"
proof -
  have "map (\<lambda>k. (k, f (sget a k) (sget b k))) (map fst a) = map (\<lambda>(k, v). (k, f v (sget b k))) a"
    using assms(1) by (auto simp: sget_distinct keys_def)
  then show ?thesis
    using assms(2) by (simp add: align2_def union_index_subset keys_def)
qed

lemma sget_in_values:
  assumes "k \<in> set (keys s)"
  shows "sget s k \<in> set (map snd s)"
proof (cases "map_of s k")
  case None
  with assms show ?thesis
    by (simp add: keys_def map_of_eq_None_iff)
next
  case (Some v)
  then have "(k, v) \<in> set s"
    by (rule map_of_SomeD)
  with Some show ?thesis
    by (auto simp: sget_def intro: rev_image_eqI)
qed

lemma notna_all: "\<forall>v \<in> set (map snd s). \<not> isnan v \<Longrightarrow> notna s = map snd s"
  by (auto simp: notna_def filter_id_conv)

lemma keys_od_set:
  "map fst (od_set k v d) = (if k \<in> set (map fst d) then map fst d else map fst d @ [k])"
proof -
  have "map fst (map (\<lambda>(k', v'). if k' = k then (k', v) else (k', v')) d) = map fst d"
    by (induction d) auto
  then show ?thesis
    by (simp add: od_set_def)
qed

lemma map_of_od_set: "map_of (od_set k v d) = (map_of d)(k \<mapsto> v)"
proof (cases "k \<in> fst ` set d")
  case False
  then have "map_of d k = None"
    by (simp add: map_of_eq_None_iff)
  with False show ?thesis
    by (auto simp: od_set_def fun_eq_iff map_add_def split: option.splits)
next
  case True
  have mem: "k \<in> fst ` set e" if "(k, b) \<in> set e" for b and e :: "('a \<times> 'b) list"
    using that by force
  have "map_of (map (\<lambda>(k', v'). if k' = k then (k', v) else (k', v')) d) j =
          (if j = k then (if k \<in> fst ` set d then Some v else None) else map_of d j)" for j
    by (induction d) (auto dest: mem)
  with True show ?thesis
    by (simp add: od_set_def fun_eq_iff)
qed

lemma first_seen_foldl:
  "foldl (\<lambda>ks k. if k \<in> set ks then ks else ks @ [k]) ks xs =
     ks @ rev (remdups (rev (filter (\<lambda>x. x \<notin> set ks) xs)))"
proof (induction xs arbitrary: ks)
  case Nil
  then show ?case by simp
next
  case (Cons x xs)
  show ?case
  proof (cases "x \<in> set ks")
    case True
    then show ?thesis
      using Cons.IH[of ks] by simp
  next
    case False
    have "filter (\<lambda>y. y \<notin> set (ks @ [x])) xs = filter (\<lambda>y. y \<noteq> x) (filter (\<lambda>y. y \<notin> set ks) xs)"
      by (induction xs) auto
    moreover have "rev (remdups (rev (x # zs))) = x # rev (remdups (rev (filter (\<lambda>y. y \<noteq> x) zs)))" for zs
    proof -
      have "remdups (ys @ [x]) = remdups (filter (\<lambda>y. y \<noteq> x) ys) @ [x]" for ys
        by (induction ys) auto
      from this[of "rev zs"] show ?thesis
        by (simp add: rev_filter)
    qed
    ultimately show ?thesis
      using False Cons.IH[of "ks @ [x]"] by simp
  qed
qed

section \<open>The report is left as it was when the validation fails\<close>

text \<open>
  Claim C9. \<^verbatim>\<open>update_report_record\<close> raises \<^verbatim>\<open>ValueError\<close> and leaves the report as it
  was (the nine histories, the latest report time and the benchmark) whenever
  \<^verbatim>\<open>trade_start_time\<close> or one of the eight required numbers is absent, or both
  \<^verbatim>\<open>trade_end_time\<close> and \<^verbatim>\<open>bench_value\<close> are absent.
\<close>

theorem update_report_record_atomic:
  assumes "trade_start_time a = None \<or> account_value a = None \<or> cash a = None \<or>
           return_rate a = None \<or> total_turnover a = None \<or> turnover_rate a = None \<or>
           total_cost a = None \<or> cost_rate a = None \<or> stock_value a = None \<or>
           (trade_end_time a = None \<and> bench_value a = None)"
  shows "update_report_record resam_ts_data a self = (Some ValueError, self)"
  using assms by (auto simp: update_report_record_def split: option.splits)

theorem update_report_record_atomic_witness:
  "update_report_record (\<lambda>b s e. None)
     \<lparr>trade_start_time = Some 2, trade_end_time = None, account_value = Some (Fin 100),
      cash = Some (Fin 40), return_rate = Some (Fin 0), total_turnover = Some (Fin 0),
      turnover_rate = Some (Fin 0), total_cost = Some (Fin 0), cost_rate = Some (Fin 0),
      stock_value = Some (Fin 60), bench_value = None\<rparr>
     \<lparr>accounts = [(1, Fin 100)], returns = [(1, Fin 0)], total_turnovers = [(1, Fin 0)],
      turnovers = [(1, Fin 0)], total_costs = [(1, Fin 0)], costs = [(1, Fin 0)],
      stock_values = [(1, Fin 60)], cashes = [(1, Fin 40)], benches = [(1, None)],
      latest_report_time = Some 1, bench = None\<rparr>
   = (Some ValueError,
     \<lparr>accounts = [(1, Fin 100)], returns = [(1, Fin 0)], total_turnovers = [(1, Fin 0)],
      turnovers = [(1, Fin 0)], total_costs = [(1, Fin 0)], costs = [(1, Fin 0)],
      stock_values = [(1, Fin 60)], cashes = [(1, Fin 40)], benches = [(1, None)],
      latest_report_time = Some 1, bench = None\<rparr>)"
  by (rule update_report_record_atomic) simp

section \<open>The fill rate\<close>

text \<open>
  Where the label of an instrument is in the index of \<^verbatim>\<open>deal_amount\<close>, the fill rate is
  the deal amount, 0 for a missing cell, over the amount. Where the label is in the
  index of \<^verbatim>\<open>amount\<close> only, the replacement has no cell to work on and the fill rate is
  missing.
\<close>

lemma update_order_fulfill_rate_cells:
  assumes "t ''deal_amount'' = Some d" and "t ''amount'' = Some a"
  shows "update_order_fulfill_rate t = Inr (assign ''ffr'' (ffr_func d a) t)"
    and "k \<in> set (keys d) \<Longrightarrow> sget (ffr_func d a) k = fdiv (fillna (Fin 0) (sget d k)) (sget a k)"
    and "k \<notin> set (keys d) \<Longrightarrow> sget (ffr_func d a) k = NaN"
proof -
  show "update_order_fulfill_rate t = Inr (assign ''ffr'' (ffr_func d a) t)"
    using assms
    by (simp add: update_order_fulfill_rate_def transfer_to_def transfer2_def bindE_def column_def)
  show "sget (ffr_func d a) k = fdiv (fillna (Fin 0) (sget d k)) (sget a k)"
    if "k \<in> set (keys d)"
    using that
    by (cases "sget d k")
       (simp_all add: ffr_func_def sget_align2 sget_replace keys_replace fillna_def)
  show "sget (ffr_func d a) k = NaN" if "k \<notin> set (keys d)"
    using that
    by (simp add: ffr_func_def sget_align2 sget_replace keys_replace)
qed

text \<open>
  Claim C2. The fill rate is \<^verbatim>\<open>deal_amount / amount\<close> with a missing deal amount counted
  as 0, so that an amount of 10 with a missing deal amount has the fill rate 0. The
  code does so for a \<open>NaN\<close> cell of \<^verbatim>\<open>deal_amount\<close> (first equation). It does not where
  the instrument has no row in \<^verbatim>\<open>deal_amount\<close> at all (second equation), which is what
  the aggregation produces when the outer decision orders an instrument and no inner
  indicator reports it (third equation: one inner indicator of the innermost level
  without any trade, an outer order of 10 for \<open>A\<close>): the fill rate is missing, where the
  comment in the code says "\<^verbatim>\<open>deal_amount\<close> is \<^verbatim>\<open>np.NaN\<close> when there is no inner decision.
  So full fill rate is 0."
\<close>

theorem fulfill_rate_no_inner_decision:
  "bindE (update_order_fulfill_rate
            (Map.empty(''amount'' \<mapsto> [(''A'', Fin 10)], ''deal_amount'' \<mapsto> [(''A'', NaN)])))
     (\<lambda>t. column t ''ffr'') = Inr [(''A'', Fin 0)] \<and>
   bindE (update_order_fulfill_rate
            (Map.empty(''amount'' \<mapsto> [(''A'', Fin 10)], ''deal_amount'' \<mapsto> [])))
     (\<lambda>t. column t ''ffr'') = Inr [(''A'', NaN)] \<and>
   bindE (update_order_indicators [] Map.empty) (\<lambda>child.
     bindE (agg_order_indicators (\<lambda>d. d) [child]
              [(\<lparr>get_decision = [], trade_range = None\<rparr>, 0, 10)]
              \<lparr>get_decision = [\<lparr>stock_id = ''A'', amount_delta = Fin 10,
                                deal_amount_delta = Fin 0, direction = Fin 1, sign = Fin 1\<rparr>],
               trade_range = None\<rparr>
              \<lparr>get_deal_price = (\<lambda>i s e d. NoData), get_volume = (\<lambda>i s e. [])\<rparr>
              \<lparr>ffr_weight_method_opt = None, pa_config_opt = None\<rparr> Map.empty)
       (\<lambda>(inner, t). column t ''ffr'')) = Inr [(''A'', NaN)]"
  by code_simp

section \<open>The price advantage\<close>

lemma pa_func_cell:
  "sget (pa_func td tp bp) k =
     fmul (fsub (Fin 1) (fmul (sget td k) (Fin 2))) (fsub (fdiv (sget tp k) (sget bp k)) (Fin 1))"
  by (auto simp: pa_func_def sget_align2 sget_smap keys_smap keys_align2 set_union_index
        sget_absent fsub_def)

text \<open>
  Claim C3. When the column \<^verbatim>\<open>trade_price\<close> of the aggregated table is not empty, the
  column \<^verbatim>\<open>pa\<close> is computed, and for every instrument
  \<open>pa = (1 - 2 * trade_dir) * (trade_price / base_price - 1)\<close>, a cell that a column
  lacks reading as missing. On numbers with a base price other than 0 this is the
  formula over the reals. With \<open>trade_dir = 0\<close>, \<open>trade_price = 100\<close> and
  \<open>base_price = 90\<close> the price advantage is \<open>1/9 = 0.111...\<close>, and with \<open>trade_dir = 1\<close>
  and the same prices it is \<open>- 1/9\<close>.
\<close>

theorem price_advantage_formula:
  assumes "t ''trade_dir'' = Some td" and "t ''trade_price'' = Some tp"
    and "t ''base_price'' = Some bp" and "tp \<noteq> []"
  shows "\<exists>pa. agg_order_price_advantage t = Inr (assign ''pa'' pa t) \<and>
           (\<forall>k. sget pa k =
                  fmul (fsub (Fin 1) (fmul (sget td k) (Fin 2)))
                       (fsub (fdiv (sget tp k) (sget bp k)) (Fin 1))) \<and>
           (\<forall>k d p b. sget td k = Fin d \<and> sget tp k = Fin p \<and> sget bp k = Fin b \<and> b \<noteq> 0 \<longrightarrow>
                  sget pa k = Fin ((1 - 2 * d) * (p / b - 1))) \<and>
           (\<forall>k. sget td k = Fin 0 \<and> sget tp k = Fin 100 \<and> sget bp k = Fin 90 \<longrightarrow>
                  sget pa k = Fin (1 / 9)) \<and>
           (\<forall>k. sget td k = Fin 1 \<and> sget tp k = Fin 100 \<and> sget bp k = Fin 90 \<longrightarrow>
                  sget pa k = Fin (- (1 / 9)))"
proof -
  have run: "agg_order_price_advantage t = Inr (assign ''pa'' (pa_func td tp bp) t)"
    using assms
    by (simp add: agg_order_price_advantage_def transfer1_def transfer3_def transfer_to_def
          bindE_def column_def if_empty_func_def)
  have num: "sget (pa_func td tp bp) k = Fin ((1 - 2 * d) * (p / b - 1))"
    if "sget td k = Fin d" "sget tp k = Fin p" "sget bp k = Fin b" "b \<noteq> 0" for k d p b
    using that by (simp add: pa_func_cell fsub_def algebra_simps)
  have buy: "sget (pa_func td tp bp) k = Fin (1 / 9)"
    if "sget td k = Fin 0" "sget tp k = Fin 100" "sget bp k = Fin 90" for k
    using num[OF that] by simp
  have sell: "sget (pa_func td tp bp) k = Fin (- (1 / 9))"
    if "sget td k = Fin 1" "sget tp k = Fin 100" "sget bp k = Fin 90" for k
    using num[OF that] by simp
  show ?thesis
    using run pa_func_cell num buy sell by blast
qed

theorem price_advantage_formula_witness:
  "\<exists>pa. agg_order_price_advantage
           (Map.empty(''trade_dir'' \<mapsto> [(''A'', Fin 0), (''B'', Fin 1)],
                      ''trade_price'' \<mapsto> [(''A'', Fin 100), (''B'', Fin 100)],
                      ''base_price'' \<mapsto> [(''A'', Fin 90), (''B'', Fin 90)]))
         = Inr (assign ''pa'' pa
           (Map.empty(''trade_dir'' \<mapsto> [(''A'', Fin 0), (''B'', Fin 1)],
                      ''trade_price'' \<mapsto> [(''A'', Fin 100), (''B'', Fin 100)],
                      ''base_price'' \<mapsto> [(''A'', Fin 90), (''B'', Fin 90)]))) \<and>
        sget pa ''A'' = Fin (1 / 9) \<and> sget pa ''B'' = Fin (- (1 / 9))"
proof -
  let ?td = "[(''A'', Fin 0), (''B'', Fin 1)]"
  let ?tp = "[(''A'', Fin 100), (''B'', Fin 100)]"
  let ?bp = "[(''A'', Fin 90), (''B'', Fin 90)]"
  let ?t = "Map.empty(''trade_dir'' \<mapsto> ?td, ''trade_price'' \<mapsto> ?tp, ''base_price'' \<mapsto> ?bp)"
  from price_advantage_formula[of ?t ?td ?tp ?bp]
  obtain pa where run: "agg_order_price_advantage ?t = Inr (assign ''pa'' pa ?t)"
    and buy: "\<forall>k. sget ?td k = Fin 0 \<and> sget ?tp k = Fin 100 \<and> sget ?bp k = Fin 90 \<longrightarrow>
                sget pa k = Fin (1 / 9)"
    and sell: "\<forall>k. sget ?td k = Fin 1 \<and> sget ?tp k = Fin 100 \<and> sget ?bp k = Fin 90 \<longrightarrow>
                sget pa k = Fin (- (1 / 9))"
    by auto
  have "sget pa ''A'' = Fin (1 / 9)"
    using buy by (simp add: sget_def)
  moreover have "sget pa ''B'' = Fin (- (1 / 9))"
    using sell by (simp add: sget_def)
  ultimately show ?thesis
    using run by blast
qed

section \<open>The baseline of an instrument\<close>

lemma not_flt: "(\<not> flt p q) = (isnan p \<or> isnan q \<or> fle q p)"
  by (cases p; cases q) auto

lemma lower_policy_names:
  "lower ''twap'' = ''twap''" "lower ''vwap'' = ''vwap''" "lower ''deal_price'' = ''deal_price''"
  by code_simp+

lemma get_base_vol_pri_data:
  assumes "trade_range dec \<noteq> Some IdxTradeRange"
    and "w = (case trade_range dec of Some (OtherTradeRange clip) \<Rightarrow> clip st et | _ \<Rightarrow> (st, et))"
    and "lower (case price_opt cfg of None \<Rightarrow> ''deal_price'' | Some p \<Rightarrow> p) = ''deal_price''"
    and "as_series (get_deal_price ex inst (fst w) (snd w) dir) (fst w) = Some ps"
  shows "get_base_vol_pri inst st et dir dec ex cfg =
      bindE (let agg = lower (case agg_opt cfg of None \<Rightarrow> ''twap'' | Some a \<Rightarrow> a) in
             if agg = ''vwap'' then Inr (reindex (get_volume ex inst (fst w) (snd w)) (keys (price_filter ps)))
             else if agg = ''twap'' then Inr (map (\<lambda>k. (k, Fin 1)) (keys (price_filter ps)))
             else Inl NotImplementedError)
        (\<lambda>volume_s. Inr (Some (fdiv (ssum (align2 fmul (price_filter ps) volume_s)) (ssum volume_s)),
                         Some (ssum volume_s)))"
proof (cases "trade_range dec")
  case None
  with assms show ?thesis
    by (simp add: get_base_vol_pri_def bindE_def Let_def)
next
  case (Some r)
  with assms(1) obtain clip where r: "r = OtherTradeRange clip"
    by (cases r) auto
  obtain s e where se: "clip st et = (s, e)"
    by (cases "clip st et")
  from Some r se assms show ?thesis
    by (simp add: get_base_vol_pri_def bindE_def Let_def)
qed

lemma lower_other_names:
  "lower ''mean'' = ''mean''" "lower ''$close'' = ''$close''"
  by code_simp+

text \<open>
  Claim C10. The price filter keeps the entries that are not below \<open>1e-8\<close>: the
  missing prices and the prices of at least \<open>1e-8\<close>. A filter on \<^verbatim>\<open>price_s >= 1e-8\<close>
  would drop the missing ones. A missing price that is kept counts in the weights and
  not in the sum of the products: the prices \<open>NaN, 5, 0\<close> give the time-weighted base
  price \<open>5 / 2\<close> over the base volume 2.
\<close>

theorem price_filter_keeps_missing:
  "price_filter ps = filter (\<lambda>(t, p). isnan p \<or> fle epsilon p) ps \<and>
   price_filter [(1, NaN), (2, Fin 5), (3, Fin 0)] = [(1, NaN), (2, Fin 5)] \<and>
   filter (\<lambda>(t, p). fle epsilon p) [(1, NaN), (2, Fin 5), (3, Fin 0)] = [(2::time, Fin 5)] \<and>
   get_base_vol_pri ''A'' 0 10 (Fin 1) \<lparr>get_decision = [], trade_range = None\<rparr>
     \<lparr>get_deal_price = (\<lambda>i s e d. PriceSeries [(1, NaN), (2, Fin 5), (3, Fin 0)]),
      get_volume = (\<lambda>i s e. [])\<rparr>
     \<lparr>agg_opt = None, price_opt = None, weight_method_opt = None\<rparr>
   = Inr (Some (Fin (5 / 2)), Some (Fin 2))"
proof -
  have a: "price_filter ps = filter (\<lambda>(t, p). isnan p \<or> fle epsilon p) ps"
    by (simp add: price_filter_def not_flt epsilon_def)
  have b: "price_filter [(1, NaN), (2, Fin 5), (3, Fin 0)] = [(1, NaN), (2, Fin 5)]"
    by (simp add: price_filter_def epsilon_def)
  have c: "filter (\<lambda>(t, p). fle epsilon p) [(1, NaN), (2, Fin 5), (3, Fin 0)] = [(2::time, Fin 5)]"
    by (simp add: epsilon_def)
  have d: "get_base_vol_pri ''A'' 0 10 (Fin 1) \<lparr>get_decision = [], trade_range = None\<rparr>
     \<lparr>get_deal_price = (\<lambda>i s e d. PriceSeries [(1, NaN), (2, Fin 5), (3, Fin 0)]),
      get_volume = (\<lambda>i s e. [])\<rparr>
     \<lparr>agg_opt = None, price_opt = None, weight_method_opt = None\<rparr>
   = Inr (Some (Fin (5 / 2)), Some (Fin 2))"
    by code_simp
  from a b c d show ?thesis by blast
qed

lemma ssum_cells:
  assumes "\<forall>v \<in> set (map snd s). v = NaN \<or> (\<exists>x. v = Fin x)"
  shows "ssum s = Fin (\<Sum>e\<leftarrow>s. the_fin (snd e))"
proof -
  have "foldl fadd (Fin a) (filter (\<lambda>v. \<not> isnan v) vs) = Fin (a + (\<Sum>v\<leftarrow>vs. the_fin v))"
    if "\<forall>v \<in> set vs. v = NaN \<or> (\<exists>x. v = Fin x)" for a vs
    using that
  proof (induction vs arbitrary: a)
    case Nil
    then show ?case by simp
  next
    case (Cons v vs)
    from Cons.prems have "v = NaN \<or> (\<exists>x. v = Fin x)" by simp
    then show ?case
      using Cons.IH Cons.prems by (auto simp: algebra_simps)
  qed
  from this[of "map snd s" 0] assms show ?thesis
    by (simp add: ssum_def notna_def fsum_def comp_def)
qed

lemma price_filter_numbers:
  "price_filter (map (\<lambda>(t, p). (t, Fin p)) prices) =
     map (\<lambda>(t, p). (t, Fin p)) (filter (\<lambda>(t, p). 1 / 10 ^ 8 \<le> p) prices)"
  by (induction prices) (auto simp: price_filter_def epsilon_def)

lemma weighted_sums:
  assumes d: "distinct (map fst kept)"
    and v: "volume_s = map (\<lambda>(t, p). (t, W t)) kept"
    and c: "\<forall>t. W t = NaN \<or> (\<exists>x. W t = Fin x)"
  shows "ssum volume_s = Fin (\<Sum>(t, p)\<leftarrow>kept. the_fin (W t))"
    and "ssum (align2 fmul (map (\<lambda>(t, p). (t, Fin p)) kept) volume_s) =
           Fin (\<Sum>(t, p)\<leftarrow>kept. p * the_fin (W t))"
proof -
  let ?ps = "map (\<lambda>(t, p). (t, Fin p)) kept"
  have kp: "keys ?ps = map fst kept" and kv: "keys volume_s = map fst kept"
    by (simp_all add: keys_def v comp_def case_prod_unfold)
  have "\<forall>x \<in> set (map snd volume_s). x = NaN \<or> (\<exists>y. x = Fin y)"
    using c by (auto simp: v)
  from ssum_cells[OF this] show "ssum volume_s = Fin (\<Sum>(t, p)\<leftarrow>kept. the_fin (W t))"
    by (simp add: v comp_def case_prod_unfold)
  have cell: "sget volume_s t = W t" if "(t, p) \<in> set kept" for t p
  proof -
    have "distinct (keys volume_s)" using d kv by simp
    moreover have "(t, W t) \<in> set volume_s" using that by (auto simp: v intro: rev_image_eqI)
    ultimately show ?thesis by (rule sget_distinct)
  qed
  have "align2 fmul ?ps volume_s = map (\<lambda>(k, x). (k, fmul x (sget volume_s k))) ?ps"
    using d by (intro align2_same_labels) (simp_all add: kp kv)
  also have "\<dots> = map (\<lambda>(t, p). (t, fmul (Fin p) (W t))) kept"
    using cell by (auto simp: comp_def)
  finally have pr: "align2 fmul ?ps volume_s = map (\<lambda>(t, p). (t, fmul (Fin p) (W t))) kept" .
  have "\<forall>x \<in> set (map snd (map (\<lambda>(t, p). (t, fmul (Fin p) (W t))) kept)). x = NaN \<or> (\<exists>y. x = Fin y)"
  proof
    fix x assume "x \<in> set (map snd (map (\<lambda>(t, p). (t, fmul (Fin p) (W t))) kept))"
    then obtain t p where "x = fmul (Fin p) (W t)" by auto
    with c[rule_format, of t] show "x = NaN \<or> (\<exists>y. x = Fin y)" by auto
  qed
  from ssum_cells[OF this]
  have "ssum (align2 fmul ?ps volume_s) = Fin (\<Sum>e\<leftarrow>kept. the_fin (fmul (Fin (snd e)) (W (fst e))))"
    unfolding pr by (simp add: comp_def case_prod_unfold)
  moreover have "the_fin (fmul (Fin p) (W t)) = p * the_fin (W t)" for p t
    using c[rule_format, of t] by auto
  ultimately show "ssum (align2 fmul ?ps volume_s) = Fin (\<Sum>(t, p)\<leftarrow>kept. p * the_fin (W t))"
    by (simp add: case_prod_unfold)
qed

lemma sget_numbers:
  "sget (map (\<lambda>(t, v). (t, Fin v)) volumes) t =
     (case map_of volumes t of None \<Rightarrow> NaN | Some v \<Rightarrow> Fin v)"
proof -
  have "map_of (map (\<lambda>(t, v). (t, Fin v)) volumes) t = map_option Fin (map_of volumes t)"
    by (induction volumes) auto
  then show ?thesis
    by (simp add: sget_def split: option.splits)
qed

text \<open>
  Claim C4. The exchange answers with a series of prices at distinct timestamps; the
  prices are numbers. The entries with a price below \<open>1e-8\<close> (zero, tiny and negative
  prices) are dropped; \<open>kept\<close> are the others. The weight of a kept timestamp is 1
  under \<^verbatim>\<open>twap\<close>; under \<^verbatim>\<open>vwap\<close> it is the volume of the exchange at that timestamp, and
  0 where the exchange has no volume for it. The base volume is the sum of the weights
  of the kept entries and the base price is the sum of the products of price and
  weight over the base volume. Under \<^verbatim>\<open>twap\<close> the base volume is the number of kept
  entries. \<open>w\<close> is the window after clipping. The prices \<open>0, 1e-9, 5, 6\<close> give the base
  price \<open>5.5\<close> and the base volume 2 under \<^verbatim>\<open>twap\<close>; the prices \<open>0, 5, 6, 7\<close> with the
  volumes \<open>100, 10, 30\<close> and none give \<open>5.75\<close> and 40 under \<^verbatim>\<open>vwap\<close> (the witness).
\<close>

theorem base_vol_pri_weighted_average:
  assumes r: "trade_range dec \<noteq> Some IdxTradeRange"
    and w: "w = (case trade_range dec of Some (OtherTradeRange clip) \<Rightarrow> clip st et | _ \<Rightarrow> (st, et))"
    and pr: "lower (case price_opt cfg of None \<Rightarrow> ''deal_price'' | Some p \<Rightarrow> p) = ''deal_price''"
    and ps: "get_deal_price ex inst (fst w) (snd w) dir = PriceSeries (map (\<lambda>(t, p). (t, Fin p)) prices)"
    and dp: "distinct (map fst prices)"
    and agg: "agg = lower (case agg_opt cfg of None \<Rightarrow> ''twap'' | Some a \<Rightarrow> a)"
    and pol: "agg = ''twap'' \<or>
              agg = ''vwap'' \<and> get_volume ex inst (fst w) (snd w) = map (\<lambda>(t, v). (t, Fin v)) volumes"
    and wt: "weight = (\<lambda>t. if agg = ''twap'' then 1
                           else (case map_of volumes t of None \<Rightarrow> 0 | Some v \<Rightarrow> v))"
    and kept: "kept = filter (\<lambda>(t, p). 1 / 10 ^ 8 \<le> p) prices"
    and sw: "sum_weight = (\<Sum>(t, p)\<leftarrow>kept. weight t)"
    and sp: "sum_price_weight = (\<Sum>(t, p)\<leftarrow>kept. p * weight t)"
  shows "get_base_vol_pri inst st et dir dec ex cfg =
           Inr (Some (fdiv (Fin sum_price_weight) (Fin sum_weight)), Some (Fin sum_weight)) \<and>
         (sum_weight \<noteq> 0 \<longrightarrow>
            get_base_vol_pri inst st et dir dec ex cfg =
              Inr (Some (Fin (sum_price_weight / sum_weight)), Some (Fin sum_weight))) \<and>
         (agg = ''twap'' \<longrightarrow> sum_weight = real (length kept))"
proof -
  define W where "W = (\<lambda>t. if agg = ''twap'' then Fin 1
                           else (case map_of volumes t of None \<Rightarrow> NaN | Some v \<Rightarrow> Fin v))"
  have cW: "\<forall>t. W t = NaN \<or> (\<exists>x. W t = Fin x)"
    by (auto simp: W_def split: option.splits)
  have tW: "the_fin (W t) = weight t" for t
    by (simp add: W_def wt split: option.splits)
  let ?kept_s = "map (\<lambda>(t, p). (t, Fin p)) kept"
  have pf: "price_filter (map (\<lambda>(t, p). (t, Fin p)) prices) = ?kept_s"
    by (simp add: price_filter_numbers kept)
  have kk: "keys ?kept_s = map fst kept"
    by (simp add: keys_def comp_def case_prod_unfold)
  have dk: "distinct (map fst kept)"
    using dp by (simp add: kept distinct_map_filter)
  have s: "as_series (get_deal_price ex inst (fst w) (snd w) dir) (fst w) =
             Some (map (\<lambda>(t, p). (t, Fin p)) prices)"
    using ps by (simp add: as_series_def)
  define volume_s where "volume_s = map (\<lambda>(t, p). (t, W t)) kept"
  have vol: "(if agg = ''vwap'' then Inr (reindex (get_volume ex inst (fst w) (snd w)) (keys ?kept_s))
             else if agg = ''twap'' then Inr (map (\<lambda>k. (k, Fin 1)) (keys ?kept_s))
             else Inl NotImplementedError) = Inr volume_s"
  proof (cases "agg = ''twap''")
    case True
    then show ?thesis
      unfolding kk by (simp add: volume_s_def W_def comp_def case_prod_unfold)
  next
    case False
    with pol have v: "agg = ''vwap''"
      "get_volume ex inst (fst w) (snd w) = map (\<lambda>(t, v). (t, Fin v)) volumes"
      by auto
    with False show ?thesis
      unfolding kk by (simp add: volume_s_def W_def reindex_def sget_numbers[unfolded case_prod_unfold] comp_def case_prod_unfold)
  qed
  have run: "get_base_vol_pri inst st et dir dec ex cfg =
      Inr (Some (fdiv (ssum (align2 fmul ?kept_s volume_s)) (ssum volume_s)), Some (ssum volume_s))"
    unfolding get_base_vol_pri_data[OF r w pr s] pf
    using vol by (simp add: agg[symmetric] bindE_def Let_def)
  have sums: "ssum volume_s = Fin sum_weight"
    "ssum (align2 fmul ?kept_s volume_s) = Fin sum_price_weight"
    using weighted_sums[OF dk volume_s_def cW] by (simp_all add: tW sw sp)
  have "sum_weight = real (length kept)" if "agg = ''twap''"
    using that by (simp add: sw wt case_prod_unfold sum_list_triv)
  with run sums show ?thesis
    by simp
qed

theorem base_vol_pri_weighted_average_witness:
  "get_base_vol_pri ''A'' 0 10 (Fin 1) \<lparr>get_decision = [], trade_range = None\<rparr>
     \<lparr>get_deal_price =
        (\<lambda>i s e d. PriceSeries [(1, Fin 0), (2, Fin (1 / 10 ^ 9)), (3, Fin 5), (4, Fin 6)]),
      get_volume = (\<lambda>i s e. [])\<rparr>
     \<lparr>agg_opt = Some ''twap'', price_opt = None, weight_method_opt = None\<rparr>
   = Inr (Some (Fin (11 / 2)), Some (Fin 2)) \<and>
   get_base_vol_pri ''A'' 0 10 (Fin 1) \<lparr>get_decision = [], trade_range = None\<rparr>
     \<lparr>get_deal_price = (\<lambda>i s e d. PriceSeries [(1, Fin 0), (2, Fin 5), (3, Fin 6), (4, Fin 7)]),
      get_volume = (\<lambda>i s e. [(1, Fin 100), (2, Fin 10), (3, Fin 30)])\<rparr>
     \<lparr>agg_opt = Some ''vwap'', price_opt = None, weight_method_opt = None\<rparr>
   = Inr (Some (Fin (23 / 4)), Some (Fin 40))"
proof -
  let ?dec = "\<lparr>get_decision = [], trade_range = None\<rparr>"
  let ?p1 = "[(1, 0), (2, 1 / 10 ^ 9), (3, 5), (4, 6)] :: (time \<times> real) list"
  let ?p2 = "[(1, 0), (2, 5), (3, 6), (4, 7)] :: (time \<times> real) list"
  let ?v2 = "[(1, 100), (2, 10), (3, 30)] :: (time \<times> real) list"
  let ?k1 = "filter (\<lambda>(t, p). 1 / 10 ^ 8 \<le> p) ?p1"
  let ?k2 = "filter (\<lambda>(t, p). 1 / 10 ^ 8 \<le> p) ?p2"
  let ?w2 = "\<lambda>t. case map_of ?v2 t of None \<Rightarrow> 0 | Some v \<Rightarrow> v"
  have a: "get_base_vol_pri ''A'' 0 10 (Fin 1) ?dec
     \<lparr>get_deal_price =
        (\<lambda>i s e d. PriceSeries [(1, Fin 0), (2, Fin (1 / 10 ^ 9)), (3, Fin 5), (4, Fin 6)]),
      get_volume = (\<lambda>i s e. [])\<rparr>
     \<lparr>agg_opt = Some ''twap'', price_opt = None, weight_method_opt = None\<rparr>
   = Inr (Some (Fin (11 / 2)), Some (Fin 2))"
    using base_vol_pri_weighted_average[where dec = ?dec and w = "(0, 10)" and st = 0 and et = 10
        and inst = "''A''" and dir = "Fin 1" and prices = ?p1 and volumes = "[]"
        and agg = "''twap''" and weight = "\<lambda>t. 1" and kept = ?k1
        and sum_weight = "\<Sum>(t, p)\<leftarrow>?k1. 1" and sum_price_weight = "\<Sum>(t, p)\<leftarrow>?k1. p * 1"
        and cfg = "\<lparr>agg_opt = Some ''twap'', price_opt = None, weight_method_opt = None\<rparr>"
        and ex = "\<lparr>get_deal_price =
            (\<lambda>i s e d. PriceSeries [(1, Fin 0), (2, Fin (1 / 10 ^ 9)), (3, Fin 5), (4, Fin 6)]),
          get_volume = (\<lambda>i s e. [])\<rparr>"]
    by (simp add: lower_policy_names)
  have b: "get_base_vol_pri ''A'' 0 10 (Fin 1) ?dec
     \<lparr>get_deal_price = (\<lambda>i s e d. PriceSeries [(1, Fin 0), (2, Fin 5), (3, Fin 6), (4, Fin 7)]),
      get_volume = (\<lambda>i s e. [(1, Fin 100), (2, Fin 10), (3, Fin 30)])\<rparr>
     \<lparr>agg_opt = Some ''vwap'', price_opt = None, weight_method_opt = None\<rparr>
   = Inr (Some (Fin (23 / 4)), Some (Fin 40))"
    using base_vol_pri_weighted_average[where dec = ?dec and w = "(0, 10)" and st = 0 and et = 10
        and inst = "''A''" and dir = "Fin 1" and prices = ?p2 and volumes = ?v2
        and agg = "''vwap''" and weight = ?w2 and kept = ?k2
        and sum_weight = "\<Sum>(t, p)\<leftarrow>?k2. ?w2 t" and sum_price_weight = "\<Sum>(t, p)\<leftarrow>?k2. p * ?w2 t"
        and cfg = "\<lparr>agg_opt = Some ''vwap'', price_opt = None, weight_method_opt = None\<rparr>"
        and ex = "\<lparr>get_deal_price =
            (\<lambda>i s e d. PriceSeries [(1, Fin 0), (2, Fin 5), (3, Fin 6), (4, Fin 7)]),
          get_volume = (\<lambda>i s e. [(1, Fin 100), (2, Fin 10), (3, Fin 30)])\<rparr>"]
    by (simp add: lower_policy_names)
  from a b show ?thesis
    by (rule conjI)
qed

text \<open>
  Claim C5, as the code has it. \<^verbatim>\<open>TypeError\<close> is what the specification calls
  UnsupportedRangeError and \<^verbatim>\<open>NotImplementedError\<close> what it calls UnsupportedPolicyError.
  A decision with an \<^verbatim>\<open>IdxTradeRange\<close> fails with \<^verbatim>\<open>TypeError\<close>, whatever the policies.
  Otherwise a price source other than \<^verbatim>\<open>deal_price\<close> fails with \<^verbatim>\<open>NotImplementedError\<close>.
  Otherwise an aggregation other than \<^verbatim>\<open>twap\<close> and \<^verbatim>\<open>vwap\<close> fails with
  \<^verbatim>\<open>NotImplementedError\<close> when the exchange has data for the window, and when it has
  none the call returns \<^verbatim>\<open>(None, None)\<close> without looking at the aggregation. The names
  of the policies are compared in lower case.
\<close>

theorem base_vol_pri_unsupported:
  "(trade_range dec = Some IdxTradeRange \<longrightarrow>
      get_base_vol_pri inst st et dir dec ex cfg = Inl TypeError) \<and>
   (trade_range dec \<noteq> Some IdxTradeRange \<and>
    lower (case price_opt cfg of None \<Rightarrow> ''deal_price'' | Some p \<Rightarrow> p) \<noteq> ''deal_price'' \<longrightarrow>
      get_base_vol_pri inst st et dir dec ex cfg = Inl NotImplementedError) \<and>
   (trade_range dec \<noteq> Some IdxTradeRange \<and>
    lower (case price_opt cfg of None \<Rightarrow> ''deal_price'' | Some p \<Rightarrow> p) = ''deal_price'' \<and>
    w = (case trade_range dec of Some (OtherTradeRange clip) \<Rightarrow> clip st et | _ \<Rightarrow> (st, et)) \<and>
    get_deal_price ex inst (fst w) (snd w) dir \<noteq> NoData \<and>
    lower (case agg_opt cfg of None \<Rightarrow> ''twap'' | Some a \<Rightarrow> a) \<notin> {''twap'', ''vwap''} \<longrightarrow>
      get_base_vol_pri inst st et dir dec ex cfg = Inl NotImplementedError) \<and>
   (trade_range dec \<noteq> Some IdxTradeRange \<and>
    lower (case price_opt cfg of None \<Rightarrow> ''deal_price'' | Some p \<Rightarrow> p) = ''deal_price'' \<and>
    w = (case trade_range dec of Some (OtherTradeRange clip) \<Rightarrow> clip st et | _ \<Rightarrow> (st, et)) \<and>
    get_deal_price ex inst (fst w) (snd w) dir = NoData \<longrightarrow>
      get_base_vol_pri inst st et dir dec ex cfg = Inr (None, None))"
proof -
  have idx: "get_base_vol_pri inst st et dir dec ex cfg = Inl TypeError"
    if "trade_range dec = Some IdxTradeRange"
    using that by (simp add: get_base_vol_pri_def bindE_def Let_def)
  have win: "\<exists>s e. (case trade_range dec of
                  None \<Rightarrow> Inr (st, et)
                | Some IdxTradeRange \<Rightarrow> Inl TypeError
                | Some (OtherTradeRange clip_time_range) \<Rightarrow> Inr (clip_time_range st et)) = Inr (s, e) \<and>
              (case trade_range dec of Some (OtherTradeRange clip) \<Rightarrow> clip st et | _ \<Rightarrow> (st, et)) = (s, e)"
    if "trade_range dec \<noteq> Some IdxTradeRange"
  proof (cases "trade_range dec")
    case None
    then show ?thesis by simp
  next
    case (Some r)
    with that obtain clip where "r = OtherTradeRange clip"
      by (cases r) auto
    with Some show ?thesis
      by (cases "clip st et") simp
  qed
  have price: "get_base_vol_pri inst st et dir dec ex cfg = Inl NotImplementedError"
    if "trade_range dec \<noteq> Some IdxTradeRange"
      and "lower (case price_opt cfg of None \<Rightarrow> ''deal_price'' | Some p \<Rightarrow> p) \<noteq> ''deal_price''"
  proof -
    from win[OF that(1)] obtain s e where "(case trade_range dec of
                  None \<Rightarrow> Inr (st, et)
                | Some IdxTradeRange \<Rightarrow> Inl TypeError
                | Some (OtherTradeRange clip_time_range) \<Rightarrow> Inr (clip_time_range st et)) = Inr (s, e)"
      by blast
    with that(2) show ?thesis
      by (simp add: get_base_vol_pri_def bindE_def Let_def)
  qed
  have agg: "get_base_vol_pri inst st et dir dec ex cfg = Inl NotImplementedError"
    if "trade_range dec \<noteq> Some IdxTradeRange"
      and "lower (case price_opt cfg of None \<Rightarrow> ''deal_price'' | Some p \<Rightarrow> p) = ''deal_price''"
      and "w = (case trade_range dec of Some (OtherTradeRange clip) \<Rightarrow> clip st et | _ \<Rightarrow> (st, et))"
      and "get_deal_price ex inst (fst w) (snd w) dir \<noteq> NoData"
      and "lower (case agg_opt cfg of None \<Rightarrow> ''twap'' | Some a \<Rightarrow> a) \<notin> {''twap'', ''vwap''}"
  proof -
    from win[OF that(1)] that(3) obtain s e where "(case trade_range dec of
                  None \<Rightarrow> Inr (st, et)
                | Some IdxTradeRange \<Rightarrow> Inl TypeError
                | Some (OtherTradeRange clip_time_range) \<Rightarrow> Inr (clip_time_range st et)) = Inr (s, e)"
      and "w = (s, e)"
      by auto
    with that(2,4,5) show ?thesis
      by (cases "get_deal_price ex inst s e dir")
         (simp_all add: get_base_vol_pri_def bindE_def Let_def as_series_def)
  qed
  have nodata: "get_base_vol_pri inst st et dir dec ex cfg = Inr (None, None)"
    if "trade_range dec \<noteq> Some IdxTradeRange"
      and "lower (case price_opt cfg of None \<Rightarrow> ''deal_price'' | Some p \<Rightarrow> p) = ''deal_price''"
      and "w = (case trade_range dec of Some (OtherTradeRange clip) \<Rightarrow> clip st et | _ \<Rightarrow> (st, et))"
      and "get_deal_price ex inst (fst w) (snd w) dir = NoData"
  proof -
    from win[OF that(1)] that(3) obtain s e where "(case trade_range dec of
                  None \<Rightarrow> Inr (st, et)
                | Some IdxTradeRange \<Rightarrow> Inl TypeError
                | Some (OtherTradeRange clip_time_range) \<Rightarrow> Inr (clip_time_range st et)) = Inr (s, e)"
      and "w = (s, e)"
      by auto
    with that(2,4) show ?thesis
      by (simp add: get_base_vol_pri_def bindE_def Let_def as_series_def)
  qed
  from idx price agg nodata show ?thesis
    by blast
qed

theorem base_vol_pri_unsupported_witness:
  "get_base_vol_pri ''A'' 0 10 (Fin 1) \<lparr>get_decision = [], trade_range = Some IdxTradeRange\<rparr>
     \<lparr>get_deal_price = (\<lambda>i s e d. Scalar (Fin 5)), get_volume = (\<lambda>i s e. [])\<rparr>
     \<lparr>agg_opt = None, price_opt = None, weight_method_opt = None\<rparr> = Inl TypeError \<and>
   get_base_vol_pri ''A'' 0 10 (Fin 1) \<lparr>get_decision = [], trade_range = None\<rparr>
     \<lparr>get_deal_price = (\<lambda>i s e d. Scalar (Fin 5)), get_volume = (\<lambda>i s e. [])\<rparr>
     \<lparr>agg_opt = None, price_opt = Some ''$close'', weight_method_opt = None\<rparr> = Inl NotImplementedError \<and>
   get_base_vol_pri ''A'' 0 10 (Fin 1) \<lparr>get_decision = [], trade_range = None\<rparr>
     \<lparr>get_deal_price = (\<lambda>i s e d. Scalar (Fin 5)), get_volume = (\<lambda>i s e. [])\<rparr>
     \<lparr>agg_opt = Some ''mean'', price_opt = None, weight_method_opt = None\<rparr> = Inl NotImplementedError \<and>
   get_base_vol_pri ''A'' 0 10 (Fin 1) \<lparr>get_decision = [], trade_range = None\<rparr>
     \<lparr>get_deal_price = (\<lambda>i s e d. NoData), get_volume = (\<lambda>i s e. [])\<rparr>
     \<lparr>agg_opt = Some ''mean'', price_opt = None, weight_method_opt = None\<rparr> = Inr (None, None)"
  using
    base_vol_pri_unsupported[where dec = "\<lparr>get_decision = [], trade_range = Some IdxTradeRange\<rparr>"
      and inst = "''A''" and st = 0 and et = 10 and dir = "Fin 1" and w = "(0, 10)"
      and ex = "\<lparr>get_deal_price = (\<lambda>i s e d. Scalar (Fin 5)), get_volume = (\<lambda>i s e. [])\<rparr>"
      and cfg = "\<lparr>agg_opt = None, price_opt = None, weight_method_opt = None\<rparr>"]
    base_vol_pri_unsupported[where dec = "\<lparr>get_decision = [], trade_range = None\<rparr>"
      and inst = "''A''" and st = 0 and et = 10 and dir = "Fin 1" and w = "(0, 10)"
      and ex = "\<lparr>get_deal_price = (\<lambda>i s e d. Scalar (Fin 5)), get_volume = (\<lambda>i s e. [])\<rparr>"
      and cfg = "\<lparr>agg_opt = None, price_opt = Some ''$close'', weight_method_opt = None\<rparr>"]
    base_vol_pri_unsupported[where dec = "\<lparr>get_decision = [], trade_range = None\<rparr>"
      and inst = "''A''" and st = 0 and et = 10 and dir = "Fin 1" and w = "(0, 10)"
      and ex = "\<lparr>get_deal_price = (\<lambda>i s e d. Scalar (Fin 5)), get_volume = (\<lambda>i s e. [])\<rparr>"
      and cfg = "\<lparr>agg_opt = Some ''mean'', price_opt = None, weight_method_opt = None\<rparr>"]
    base_vol_pri_unsupported[where dec = "\<lparr>get_decision = [], trade_range = None\<rparr>"
      and inst = "''A''" and st = 0 and et = 10 and dir = "Fin 1" and w = "(0, 10)"
      and ex = "\<lparr>get_deal_price = (\<lambda>i s e d. NoData), get_volume = (\<lambda>i s e. [])\<rparr>"
      and cfg = "\<lparr>agg_opt = Some ''mean'', price_opt = None, weight_method_opt = None\<rparr>"]
  by (simp add: lower_policy_names lower_other_names)

text \<open>
  The claim C5 as it is written fails: with the aggregation \<^verbatim>\<open>mean\<close> and no data for
  the window the call returns \<^verbatim>\<open>(None, None)\<close>, and with the aggregation \<^verbatim>\<open>mean\<close> and an
  \<^verbatim>\<open>IdxTradeRange\<close> it fails with \<^verbatim>\<open>TypeError\<close>, not with \<^verbatim>\<open>NotImplementedError\<close>.
\<close>

theorem base_vol_pri_unsupported_counterexample:
  "lower ''mean'' \<notin> {''twap'', ''vwap''} \<and>
   get_base_vol_pri ''A'' 0 10 (Fin 1) \<lparr>get_decision = [], trade_range = None\<rparr>
     \<lparr>get_deal_price = (\<lambda>i s e d. NoData), get_volume = (\<lambda>i s e. [])\<rparr>
     \<lparr>agg_opt = Some ''mean'', price_opt = None, weight_method_opt = None\<rparr> = Inr (None, None) \<and>
   get_base_vol_pri ''A'' 0 10 (Fin 1) \<lparr>get_decision = [], trade_range = Some IdxTradeRange\<rparr>
     \<lparr>get_deal_price = (\<lambda>i s e d. Scalar (Fin 5)), get_volume = (\<lambda>i s e. [])\<rparr>
     \<lparr>agg_opt = Some ''mean'', price_opt = None, weight_method_opt = None\<rparr> = Inl TypeError"
  by code_simp

section \<open>The history of the summaries\<close>

lemma archive_steps_index:
  "map fst (trade_indicator_his (archive_steps steps self)) =
     foldl (\<lambda>ks k. if k \<in> set ks then ks else ks @ [k])
       (map fst (trade_indicator_his self)) (map fst steps)"
proof (induction steps arbitrary: self)
  case Nil
  then show ?case by (simp add: archive_steps_def)
next
  case (Cons s steps)
  obtain t summary where s: "s = (t, summary)"
    by (cases s)
  have "archive_steps (s # steps) self =
          archive_steps steps (indicator_record t (self\<lparr>trade_indicator := summary\<rparr>))"
    by (simp add: archive_steps_def s)
  moreover have "map fst (trade_indicator_his (indicator_record t (self\<lparr>trade_indicator := summary\<rparr>))) =
      (if t \<in> set (map fst (trade_indicator_his self)) then map fst (trade_indicator_his self)
       else map fst (trade_indicator_his self) @ [t])"
    by (simp add: indicator_record_def keys_od_set)
  ultimately show ?case
    using Cons.IH[of "indicator_record t (self\<lparr>trade_indicator := summary\<rparr>)"]
    by (simp add: s)
qed

lemma first_seen_absorb:
  "set xs \<subseteq> set ks \<Longrightarrow> foldl (\<lambda>ks k. if k \<in> set ks then ks else ks @ [k]) ks xs = ks"
  by (induction xs) auto

lemma first_seen_distinct:
  "distinct xs \<Longrightarrow> foldl (\<lambda>ks k. if k \<in> set ks then ks else ks @ [k]) [] xs = xs"
  by (simp add: first_seen_foldl distinct_remdups_id)

lemma nested_entry_columns:
  "map fst (nested_entry t new_data (c, v)) =
     (if c \<in> set (map fst new_data) then map fst new_data else map fst new_data @ [c])"
  by (simp add: nested_entry_def keys_od_set)

lemma nested_entry_column:
  "map_of (nested_entry t new_data (c, v)) c' =
     (if c' = c then Some (od_set t v (case map_of new_data c of None \<Rightarrow> [] | Some m \<Rightarrow> m))
      else map_of new_data c')"
  by (simp add: nested_entry_def map_of_od_set)

lemma nested_row_columns:
  "map fst (foldl (nested_entry t) new_data s) =
     foldl (\<lambda>ks k. if k \<in> set ks then ks else ks @ [k]) (map fst new_data) (map fst s)"
proof (induction s arbitrary: new_data)
  case Nil
  then show ?case by simp
next
  case (Cons e s)
  obtain c v where e: "e = (c, v)" by (cases e)
  show ?case
    using Cons.IH[of "nested_entry t new_data (c, v)"]
    by (simp add: e nested_entry_columns)
qed

lemma nested_entry_keys:
  "keys (case map_of (nested_entry t new_data (c', v)) c of None \<Rightarrow> [] | Some m \<Rightarrow> m) =
     (let old = keys (case map_of new_data c of None \<Rightarrow> [] | Some m \<Rightarrow> m)
      in if c = c' then (if t \<in> set old then old else old @ [t]) else old)"
  by (simp add: nested_entry_column keys_def keys_od_set Let_def)

lemma nested_row_keys:
  "keys (case map_of (foldl (nested_entry t) new_data s) c of None \<Rightarrow> [] | Some m \<Rightarrow> m) =
     (let old = keys (case map_of new_data c of None \<Rightarrow> [] | Some m \<Rightarrow> m)
      in if c \<in> set (map fst s) then (if t \<in> set old then old else old @ [t]) else old)"
proof (induction s arbitrary: new_data)
  case Nil
  then show ?case by simp
next
  case (Cons e s)
  obtain c' v where e: "e = (c', v)" by (cases e)
  let ?K = "\<lambda>nd. keys (case map_of nd c of None \<Rightarrow> [] | Some m \<Rightarrow> m)"
  let ?new = "nested_entry t new_data (c', v)"
  have ih: "?K (foldl (nested_entry t) ?new s) =
      (if c \<in> set (map fst s) then (if t \<in> set (?K ?new) then ?K ?new else ?K ?new @ [t])
       else ?K ?new)"
    using Cons.IH[of ?new] by (simp add: Let_def)
  have st: "?K ?new = (if c = c' then (if t \<in> set (?K new_data) then ?K new_data
                                      else ?K new_data @ [t]) else ?K new_data)"
    using nested_entry_keys[of t new_data c' v c] by (simp add: Let_def)
  have "?K (foldl (nested_entry t) new_data (e # s)) = ?K (foldl (nested_entry t) ?new s)"
    by (simp add: e)
  also have "\<dots> = (if c \<in> set (map fst (e # s))
                    then (if t \<in> set (?K new_data) then ?K new_data else ?K new_data @ [t])
                    else ?K new_data)"
    unfolding ih st by (auto simp: e)
  finally show ?case
    by (simp add: Let_def)
qed


lemma from_nested_dict_columns:
  "map fst (foldl (\<lambda>new_data (index, s). foldl (nested_entry index) new_data s) new_data d) =
     foldl (\<lambda>ks k. if k \<in> set ks then ks else ks @ [k]) (map fst new_data)
       (concat (map (\<lambda>(t, s). map fst s) d))"
proof (induction d arbitrary: new_data)
  case Nil
  then show ?case by simp
next
  case (Cons e d)
  obtain t s where e: "e = (t, s)" by (cases e)
  show ?case
    using Cons.IH[of "foldl (nested_entry t) new_data s"]
    by (simp add: e nested_row_columns)
qed

lemma from_nested_dict_keys:
  "keys (case map_of (foldl (\<lambda>new_data (index, s). foldl (nested_entry index) new_data s) new_data d) c
         of None \<Rightarrow> [] | Some m \<Rightarrow> m) =
     foldl (\<lambda>ks k. if k \<in> set ks then ks else ks @ [k])
       (keys (case map_of new_data c of None \<Rightarrow> [] | Some m \<Rightarrow> m))
       (map fst (filter (\<lambda>(t, s). c \<in> set (map fst s)) d))"
proof (induction d arbitrary: new_data)
  case Nil
  then show ?case by simp
next
  case (Cons e d)
  obtain t s where e: "e = (t, s)" by (cases e)
  show ?case
    using Cons.IH[of "foldl (nested_entry t) new_data s"]
    by (simp add: e nested_row_keys Let_def)
qed

lemma first_seen_replicate:
  assumes "distinct xs" and "0 < n"
  shows "foldl (\<lambda>ks k. if k \<in> set ks then ks else ks @ [k]) [] (concat (replicate n xs)) = xs"
proof -
  from assms(2) obtain m where n: "n = Suc m"
    by (cases n) auto
  have "set (concat (replicate m xs)) \<subseteq> set xs"
    by (induction m) auto
  then show ?thesis
    by (simp add: n first_seen_distinct[OF assms(1)] first_seen_absorb)
qed

lemma from_dict_index:
  assumes u: "\<forall>e \<in> set d. map fst (snd e) = ks"
    and dk: "distinct ks" and l: "2 \<le> length ks" and dd: "distinct (map fst d)"
  shows "map fst (from_dict d) = map fst d"
proof (cases "d = []")
  case True
  then show ?thesis
    by (simp add: from_dict_def from_nested_dict_def extract_index_def)
next
  case False
  define nd where "nd = from_nested_dict d"
  have rep: "map (\<lambda>(t, s). map fst s) d = replicate (length d) ks"
    using u by (induction d) auto
  have cols: "map fst nd = ks"
    unfolding nd_def from_nested_dict_def from_nested_dict_columns rep
    using False by (simp add: first_seen_replicate[OF dk])
  have all: "filter (\<lambda>(t, s). c \<in> set (map fst s)) d = d" if "c \<in> set ks" for c
    using u that by (auto simp: filter_id_conv)
  have colkeys: "keys (case map_of nd c of None \<Rightarrow> [] | Some m \<Rightarrow> m) = map fst d"
    if "c \<in> set ks" for c
    unfolding nd_def from_nested_dict_def from_nested_dict_keys all[OF that]
    by (simp add: keys_def first_seen_distinct[OF dd])
  have each: "keys m = map fst d" if "(c, m) \<in> set nd" for c m
  proof -
    from that have c: "c \<in> set ks"
      using cols by (metis fst_conv image_eqI list.set_map)
    have "distinct (map fst nd)"
      using cols dk by simp
    with that have "map_of nd c = Some m"
      by simp
    with colkeys[OF c] show ?thesis
      by simp
  qed
  have ixs: "map (\<lambda>(col, m). keys m) nd = replicate (length ks) (map fst d)"
  proof -
    have "map (\<lambda>(col, m). keys m) nd = replicate (length nd) (map fst d)"
      using each by (induction nd) auto
    moreover have "length nd = length ks"
      using cols by (metis length_map)
    ultimately show ?thesis
      by simp
  qed
  from l obtain n where n: "length ks = Suc (Suc n)"
    by (cases "length ks"; cases "length ks - 1") auto
  have "extract_index (replicate (length ks) (map fst d)) = map fst d"
    using first_seen_replicate[OF dd, of "length ks"]
    by (simp add: n extract_index_def unique_multiple_list_def)
  then show ?thesis
    by (simp add: from_dict_def nd_def[symmetric] ixs Let_def comp_def)
qed


lemma od_set_contents: "snd ` set (od_set k v d) \<subseteq> insert v (snd ` set d)"
  by (auto simp: od_set_def split: if_splits)

lemma archive_steps_summaries:
  "snd ` set (trade_indicator_his (archive_steps steps self)) \<subseteq>
     snd ` set (trade_indicator_his self) \<union> snd ` set steps"
proof (induction steps arbitrary: self)
  case Nil
  then show ?case by (simp add: archive_steps_def)
next
  case (Cons s steps)
  obtain t summary where s: "s = (t, summary)"
    by (cases s)
  let ?self = "indicator_record t (self\<lparr>trade_indicator := summary\<rparr>)"
  have A: "archive_steps (s # steps) self = archive_steps steps ?self"
    by (simp add: archive_steps_def s)
  have B: "snd ` set (trade_indicator_his ?self) \<subseteq>
             insert summary (snd ` set (trade_indicator_his self))"
    using od_set_contents[of t summary "trade_indicator_his self"]
    by (simp add: indicator_record_def get_trade_indicator_def)
  have D: "snd ` set (s # steps) = insert summary (snd ` set steps)"
    by (simp add: s)
  from B Cons.IH[of ?self] show ?case
    unfolding A D by blast
qed

lemma cal_trade_indicators_keys:
  assumes "trade_indicator self = []" and "cal_trade_indicators cfg self = Inr self'"
  shows "map fst (trade_indicator self') =
           [''ffr'', ''pa'', ''pos'', ''deal_amount'', ''value'', ''count'']"
  using assms
  by (auto simp: cal_trade_indicators_def bindE_def Let_def keys_od_set split: sum.splits)

text \<open>
  The export looks at the entries of the summaries. With one entry in each summary the
  rows come out sorted, whatever the order of archiving; a step archived with an empty
  summary has no row.
\<close>

lemma from_dict_one_entry_sorted:
  "from_dict [(3, [(''count'', Fin 2)]), (1, [(''count'', Fin 0)]), (2, [(''count'', Fin 1)])]
     = [(1, [(''count'', Fin 0)]), (2, [(''count'', Fin 1)]), (3, [(''count'', Fin 2)])]"
  by code_simp

lemma from_dict_empty_summaries: "from_dict [(3, []), (1, [])] = []"
  by code_simp

text \<open>
  Claim C7, as the code has it. \<^verbatim>\<open>cal_trade_indicators\<close> writes six entries into the
  summary of a step (lemma \<open>cal_trade_indicators_keys\<close>). When the archived summaries
  all carry the same entries, two or more, the rows of the exported table are in the
  order in which their timestamps were first archived: archiving writes into a
  dictionary that keeps the order of insertion, and the export keeps that order. When
  the steps are archived at strictly increasing timestamps, as the step driver does,
  the rows are in ascending order of timestamp.
\<close>

theorem history_follows_insertion_order:
  assumes "trade_indicator_his self = []"
    and "\<forall>e \<in> set steps. map fst (snd e) = ks" and "distinct ks" and "2 \<le> length ks"
  shows "map fst (generate_trade_indicators_dataframe (archive_steps steps self)) =
           rev (remdups (rev (map fst steps))) \<and>
         (sorted_wrt (<) (map fst steps) \<longrightarrow>
            map fst (generate_trade_indicators_dataframe (archive_steps steps self)) = map fst steps \<and>
            sorted (map fst (generate_trade_indicators_dataframe (archive_steps steps self))))"
proof -
  let ?his = "trade_indicator_his (archive_steps steps self)"
  have k: "map fst ?his = rev (remdups (rev (map fst steps)))"
    using assms(1) by (simp add: archive_steps_index first_seen_foldl)
  then have dd: "distinct (map fst ?his)"
    by simp
  have u: "\<forall>e \<in> set ?his. map fst (snd e) = ks"
  proof
    fix e assume "e \<in> set ?his"
    then have "snd e \<in> snd ` set ?his"
      by (rule imageI)
    with archive_steps_summaries[of steps self] assms(1) have "snd e \<in> snd ` set steps"
      by auto
    then obtain e' where "e' \<in> set steps" and "snd e = snd e'"
      by blast
    with assms(2) show "map fst (snd e) = ks"
      by simp
  qed
  have ix: "map fst (generate_trade_indicators_dataframe (archive_steps steps self)) = rev (remdups (rev (map fst steps)))"
    using from_dict_index[OF u assms(3,4) dd] k
    by (simp add: generate_trade_indicators_dataframe_def)
  have "rev (remdups (rev (map fst steps))) = map fst steps \<and> sorted (map fst steps)"
    if "sorted_wrt (<) (map fst steps)"
  proof -
    from that have "distinct (map fst steps)" and "sorted (map fst steps)"
      by (simp_all add: strict_sorted_iff)
    then show ?thesis
      by (simp add: distinct_remdups_id)
  qed
  with ix show ?thesis
    by simp
qed

theorem history_follows_insertion_order_witness:
  "map fst (generate_trade_indicators_dataframe
     (archive_steps
        [(1, [(''ffr'', Fin 1), (''pa'', Fin 0), (''pos'', Fin 0), (''deal_amount'', Fin 5),
              (''value'', Fin 50), (''count'', Fin 1)]),
         (2, [(''ffr'', Fin 1), (''pa'', Fin 0), (''pos'', Fin 0), (''deal_amount'', Fin 6),
              (''value'', Fin 60), (''count'', Fin 1)]),
         (3, [(''ffr'', Fin 1), (''pa'', Fin 0), (''pos'', Fin 0), (''deal_amount'', Fin 7),
              (''value'', Fin 70), (''count'', Fin 1)])]
        init_indicator)) = [1, 2, 3] \<and>
   sorted (map fst (generate_trade_indicators_dataframe
     (archive_steps
        [(1, [(''ffr'', Fin 1), (''pa'', Fin 0), (''pos'', Fin 0), (''deal_amount'', Fin 5),
              (''value'', Fin 50), (''count'', Fin 1)]),
         (2, [(''ffr'', Fin 1), (''pa'', Fin 0), (''pos'', Fin 0), (''deal_amount'', Fin 6),
              (''value'', Fin 60), (''count'', Fin 1)]),
         (3, [(''ffr'', Fin 1), (''pa'', Fin 0), (''pos'', Fin 0), (''deal_amount'', Fin 7),
              (''value'', Fin 70), (''count'', Fin 1)])]
        init_indicator)))"
  using history_follows_insertion_order[of init_indicator
          "[(1, [(''ffr'', Fin 1), (''pa'', Fin 0), (''pos'', Fin 0), (''deal_amount'', Fin 5),
              (''value'', Fin 50), (''count'', Fin 1)]),
         (2, [(''ffr'', Fin 1), (''pa'', Fin 0), (''pos'', Fin 0), (''deal_amount'', Fin 6),
              (''value'', Fin 60), (''count'', Fin 1)]),
         (3, [(''ffr'', Fin 1), (''pa'', Fin 0), (''pos'', Fin 0), (''deal_amount'', Fin 7),
              (''value'', Fin 70), (''count'', Fin 1)])]"
          "[''ffr'', ''pa'', ''pos'', ''deal_amount'', ''value'', ''count'']"]
  by (simp add: init_indicator_def)

text \<open>
  The claim C7 as it is written fails: after archiving three summaries of six entries
  at the timestamps 3, 1, 2 the exported rows are at 3, 1, 2, which is not ascending.
\<close>

theorem history_out_of_order_counterexample:
  "map fst (generate_trade_indicators_dataframe
     (archive_steps
        [(3, [(''ffr'', Fin 1), (''pa'', Fin 0), (''pos'', Fin 0), (''deal_amount'', Fin 7),
              (''value'', Fin 70), (''count'', Fin 1)]),
         (1, [(''ffr'', Fin 1), (''pa'', Fin 0), (''pos'', Fin 0), (''deal_amount'', Fin 5),
              (''value'', Fin 50), (''count'', Fin 1)]),
         (2, [(''ffr'', Fin 1), (''pa'', Fin 0), (''pos'', Fin 0), (''deal_amount'', Fin 6),
              (''value'', Fin 60), (''count'', Fin 1)])]
        init_indicator)) = [3, 1, 2] \<and>
   \<not> sorted (map fst (generate_trade_indicators_dataframe
     (archive_steps
        [(3, [(''ffr'', Fin 1), (''pa'', Fin 0), (''pos'', Fin 0), (''deal_amount'', Fin 7),
              (''value'', Fin 70), (''count'', Fin 1)]),
         (1, [(''ffr'', Fin 1), (''pa'', Fin 0), (''pos'', Fin 0), (''deal_amount'', Fin 5),
              (''value'', Fin 50), (''count'', Fin 1)]),
         (2, [(''ffr'', Fin 1), (''pa'', Fin 0), (''pos'', Fin 0), (''deal_amount'', Fin 6),
              (''value'', Fin 60), (''count'', Fin 1)])]
        init_indicator)))"
  by code_simp

section \<open>The weighting policies of the summary\<close>

lemma fadd_scale:
  "0 < w \<Longrightarrow> fadd (fmul a (Fin w)) (fmul b (Fin w)) = fmul (fadd a b) (Fin w)"
  by (cases a; cases b) (auto simp: algebra_simps)

lemma fsum_scale:
  assumes "0 < w"
  shows "fsum (map (\<lambda>v. fmul v (Fin w)) vs) = fmul (fsum vs) (Fin w)"
proof -
  have "foldl fadd (fmul a (Fin w)) (map (\<lambda>v. fmul v (Fin w)) vs) = fmul (foldl fadd a vs) (Fin w)"
    for a
    by (induction vs arbitrary: a) (simp_all add: fadd_scale[OF assms])
  from this[of "Fin 0"] show ?thesis
    by (simp add: fsum_def)
qed

lemma fdiv_scale:
  "0 < w \<Longrightarrow> fdiv (fmul s (Fin w)) (Fin (real n * w)) = fdiv s (Fin (real n))"
  by (cases s) (auto simp: zero_less_mult_iff zero_le_mult_iff)

lemma isnan_fmul_Fin: "w \<noteq> 0 \<Longrightarrow> isnan (fmul v (Fin w)) = isnan v"
  by (cases v) auto

lemma weighted_equal_weights:
  assumes d: "distinct (keys m)" "distinct (keys da)" and l: "set (keys m) = set (keys da)"
    and fm: "\<forall>v \<in> set (map snd m). \<not> isnan v"
    and fw: "\<forall>v \<in> set (map snd da). \<exists>x. v = Fin x \<and> \<bar>x\<bar> = w"
    and w: "w \<noteq> 0"
  shows "weighted_func m da = smean m"
proof (cases "m = []")
  case True
  with l have "da = []"
    by (simp add: keys_def)
  with True show ?thesis
    by (simp add: weighted_func_def smean_def align2_def union_index_def keys_def smap_def
          ssum_def scount_def notna_def fsum_def)
next
  case False
  then have "da \<noteq> []"
    using l by (auto simp: keys_def)
  then obtain v0 where "v0 \<in> set (map snd da)"
    by (cases da) auto
  with fw w have pos: "0 < w"
    by fastforce
  let ?n = "real (length m)"
  have len: "length da = length m"
  proof -
    have "card (set (keys m)) = length (keys m)" "card (set (keys da)) = length (keys da)"
      using d by (simp_all add: distinct_card)
    with l show ?thesis by (simp add: length_keys)
  qed
  have absw: "\<forall>v \<in> set (map snd (smap fabs da)). v = Fin w"
    using fw by (fastforce simp: smap_def)
  have wsum: "ssum (smap fabs da) = Fin (?n * w)"
  proof -
    have v: "map snd (smap fabs da) = map Fin (replicate (length da) w)"
      using absw by (induction da) (auto simp: smap_def)
    have nn: "notna (smap fabs da) = map snd (smap fabs da)"
      using absw by (intro notna_all) auto
    have "ssum (smap fabs da) = fsum (map Fin (replicate (length da) w))"
      by (simp only: ssum_def nn v)
    also have "\<dots> = Fin (sum_list (replicate (length da) w))"
      by (rule fsum_Fin)
    finally show ?thesis
      by (simp add: sum_list_replicate len)
  qed
  have cell: "sget (smap fabs da) k = Fin w" if "k \<in> set (keys m)" for k
  proof -
    from that l have "k \<in> set (keys (smap fabs da))"
      by (simp add: keys_smap)
    from sget_in_values[OF this] absw show ?thesis
      by blast
  qed
  have prod: "align2 fmul m (smap fabs da) = map (\<lambda>(k, v). (k, fmul v (Fin w))) m"
  proof -
    have "align2 fmul m (smap fabs da) = map (\<lambda>(k, v). (k, fmul v (sget (smap fabs da) k))) m"
      using d(1) l by (intro align2_same_labels) (simp_all add: keys_smap)
    also have "\<dots> = map (\<lambda>(k, v). (k, fmul v (Fin w))) m"
    proof (rule map_cong[OF refl])
      fix e assume e: "e \<in> set m"
      obtain k v where kv: "e = (k, v)" by (cases e)
      with e have "k \<in> set (keys m)"
        by (auto simp: keys_def intro: rev_image_eqI)
      with cell have "sget (smap fabs da) k = Fin w" by simp
      with kv show "(case e of (k, v) \<Rightarrow> (k, fmul v (sget (smap fabs da) k))) =
                    (case e of (k, v) \<Rightarrow> (k, fmul v (Fin w)))"
        by simp
    qed
    finally show ?thesis .
  qed
  have vals: "map snd (align2 fmul m (smap fabs da)) = map (\<lambda>v. fmul v (Fin w)) (map snd m)"
    by (simp add: prod comp_def case_prod_beta)
  have nm: "notna m = map snd m"
    using fm by (rule notna_all)
  have np: "notna (align2 fmul m (smap fabs da)) = map snd (align2 fmul m (smap fabs da))"
    using fm w by (intro notna_all) (auto simp: vals isnan_fmul_Fin)
  have psum: "ssum (align2 fmul m (smap fabs da)) = fmul (ssum m) (Fin w)"
    by (simp only: ssum_def np nm vals fsum_scale[OF pos])
  have "weighted_func m da = fdiv (fmul (ssum m) (Fin w)) (Fin (?n * w))"
    by (simp add: weighted_func_def psum wsum)
  also have "\<dots> = fdiv (ssum m) (Fin ?n)"
    by (rule fdiv_scale[OF pos])
  also have "\<dots> = smean m"
    by (simp add: smean_def scount_def nm)
  finally show ?thesis .
qed

text \<open>
  Claim C8, as the code has it. The policies \<^verbatim>\<open>mean\<close> and \<^verbatim>\<open>amount_weighted\<close> give the
  same price advantage when the columns \<^verbatim>\<open>pa\<close> and \<^verbatim>\<open>deal_amount\<close> carry the same
  instruments, once each, no price advantage is missing, and the absolute deal
  amounts are all the same number other than 0. Both are then the sum of the price
  advantages over the number of instruments; \<open>0.1\<close> and \<open>0.3\<close> give \<open>0.2\<close> (the witness).
\<close>

theorem price_advantage_weighting_agrees:
  assumes "t ''pa'' = Some pa" and "t ''deal_amount'' = Some da"
    and "distinct (keys pa)" and "distinct (keys da)" and "set (keys pa) = set (keys da)"
    and "\<forall>v \<in> set (map snd pa). \<not> isnan v"
    and "\<forall>v \<in> set (map snd da). \<exists>x. v = Fin x \<and> \<bar>x\<bar> = w"
    and "w \<noteq> 0"
  shows "cal_trade_price_advantage ''mean'' t = Inr (smean pa) \<and>
         cal_trade_price_advantage ''amount_weighted'' t = Inr (smean pa) \<and>
         smean pa = fdiv (fsum (map snd pa)) (Fin (real (length pa)))"
proof -
  have "cal_trade_price_advantage ''mean'' t = Inr (smean pa)"
    using assms(1) by (simp add: cal_trade_price_advantage_def transfer1_def bindE_def column_def)
  moreover have "cal_trade_price_advantage ''amount_weighted'' t = Inr (weighted_func pa da)"
    using assms(1,2)
    by (simp add: cal_trade_price_advantage_def transfer2_def bindE_def column_def)
  moreover have "weighted_func pa da = smean pa"
    using assms(3-8) by (rule weighted_equal_weights)
  moreover have "smean pa = fdiv (fsum (map snd pa)) (Fin (real (length pa)))"
    using notna_all[OF assms(6)] by (simp add: smean_def ssum_def scount_def)
  ultimately show ?thesis
    by simp
qed

theorem price_advantage_weighting_agrees_witness:
  "cal_trade_price_advantage ''mean''
     (Map.empty(''pa'' \<mapsto> [(''A'', Fin (1 / 10)), (''B'', Fin (3 / 10))],
                ''deal_amount'' \<mapsto> [(''A'', Fin 5), (''B'', Fin (- 5))])) = Inr (Fin (1 / 5)) \<and>
   cal_trade_price_advantage ''amount_weighted''
     (Map.empty(''pa'' \<mapsto> [(''A'', Fin (1 / 10)), (''B'', Fin (3 / 10))],
                ''deal_amount'' \<mapsto> [(''A'', Fin 5), (''B'', Fin (- 5))])) = Inr (Fin (1 / 5))"
proof -
  let ?pa = "[(''A'', Fin (1 / 10)), (''B'', Fin (3 / 10))]"
  let ?da = "[(''A'', Fin 5), (''B'', Fin (- 5))]"
  let ?t = "Map.empty(''pa'' \<mapsto> ?pa, ''deal_amount'' \<mapsto> ?da)"
  have m: "smean ?pa = Fin (1 / 5)"
    by (simp add: smean_def ssum_def scount_def notna_def fsum_def)
  have p: "\<forall>v \<in> set (map snd ?pa). \<not> isnan v"
    by simp
  have d: "\<forall>v \<in> set (map snd ?da). \<exists>x. v = Fin x \<and> \<bar>x\<bar> = 5"
    by (intro ballI) auto
  have "cal_trade_price_advantage ''mean'' ?t = Inr (smean ?pa) \<and>
        cal_trade_price_advantage ''amount_weighted'' ?t = Inr (smean ?pa)"
    using price_advantage_weighting_agrees[of ?t ?pa ?da 5, OF _ _ _ _ _ p d]
    by (simp add: keys_def)
  then show ?thesis
    by (simp only: m)
qed

text \<open>
  The claim C8 as it is written fails when an instrument has no price advantage: the
  mean leaves the instrument out, the weighted sum leaves its product out but still
  counts its deal amount in the divisor. With the price advantages \<open>0.1\<close> and missing
  and the deal amounts 5 and 5, the mean is \<open>0.1\<close> and the amount-weighted one \<open>0.05\<close>.
\<close>

theorem price_advantage_weighting_counterexample:
  "cal_trade_price_advantage ''mean''
     (Map.empty(''pa'' \<mapsto> [(''A'', Fin (1 / 10)), (''B'', NaN)],
                ''deal_amount'' \<mapsto> [(''A'', Fin 5), (''B'', Fin 5)])) = Inr (Fin (1 / 10)) \<and>
   cal_trade_price_advantage ''amount_weighted''
     (Map.empty(''pa'' \<mapsto> [(''A'', Fin (1 / 10)), (''B'', NaN)],
                ''deal_amount'' \<mapsto> [(''A'', Fin 5), (''B'', Fin 5)])) = Inr (Fin (1 / 20))"
  by (simp add: cal_trade_price_advantage_def transfer1_def transfer2_def bindE_def column_def
        smean_def weighted_func_def ssum_def scount_def notna_def fsum_def align2_def union_index_def
        keys_def sget_def smap_def)

section \<open>The aggregation of the inner indicators\<close>

lemma column_present: "t m = Some s \<Longrightarrow> column t m = Inr s"
  by (simp add: column_def)

lemma get_metric_series_present: "t m = Some s \<Longrightarrow> get_metric_series t m = s"
  by (simp add: get_metric_series_def)

lemma column_get_metric_series: "t m \<noteq> None \<Longrightarrow> column t m = Inr (get_metric_series t m)"
  by (auto simp: column_def get_metric_series_def)

lemma transfer_trade_amount_result:
  assumes "\<forall>c \<in> set cs. c ''deal_amount'' \<noteq> None \<and> c ''trade_price'' \<noteq> None"
  shows "transfer_trade_amount cs =
           Inr (map (\<lambda>c. assign ''trade_price''
                             (align2 fmul (get_metric_series c ''deal_amount'')
                                          (get_metric_series c ''trade_price'')) c) cs)"
  using assms
  by (induction cs)
     (simp_all add: transfer_to_def transfer2_def bindE_def column_get_metric_series
        trade_amount_func_def)

lemma columns_of_result:
  assumes "\<forall>t \<in> set ts. t m \<noteq> None"
  shows "columns_of ts m = Inr (map (\<lambda>t. get_metric_series t m) ts)"
  using assms by (induction ts) (simp_all add: bindE_def column_get_metric_series)

lemma sum_all_indicators_result:
  assumes "\<forall>t \<in> set ts. \<forall>m \<in> set ms. t m \<noteq> None"
  shows "sum_all_indicators ts ms fill_value =
           Inr (map (\<lambda>m. (m, sum_columns fill_value (map (\<lambda>t. get_metric_series t m) ts))) ms)"
  using assms by (induction ms) (simp_all add: bindE_def columns_of_result)

lemma assign_all_tabulate:
  "assign_all (map (\<lambda>m. (m, g m)) ms) t = (\<lambda>n. if n \<in> set ms then Some (g n) else t n)"
proof -
  have "foldl (\<lambda>t' (metric, s). assign metric s t') t (map (\<lambda>m. (m, g m)) ms) =
          (\<lambda>n. if n \<in> set ms then Some (g n) else t n)" for t
    by (induction ms arbitrary: t) (auto simp: assign_def fun_eq_iff)
  then show ?thesis
    by (simp add: assign_all_def)
qed

lemma set_foldl_union_index:
  "set (foldl union_index acc ls) = set acc \<union> \<Union> (set ` set ls)"
  by (induction ls arbitrary: acc) (auto simp: set_union_index)

lemma sget_sum_columns:
  "sget (sum_columns fill_value cols) k =
     (if \<exists>c \<in> set cols. k \<in> set (keys c)
      then fsum (map (\<lambda>c. fillna fill_value (sget c k)) cols) else NaN)"
proof -
  have "map_of (sum_columns fill_value cols) k =
          (if k \<in> set (foldl union_index [] (map keys cols))
           then Some (fsum (map (\<lambda>c. fillna fill_value (sget c k)) cols)) else None)"
    by (simp add: sum_columns_def map_of_tabulate)
  then show ?thesis
    by (auto simp: sget_def[of "sum_columns fill_value cols"] set_foldl_union_index)
qed

lemma sget_present: "sget s k \<noteq> NaN \<Longrightarrow> k \<in> set (keys s)"
  by (rule ccontr) (simp add: sget_absent)


lemma agg_order_trade_info_result:
  assumes cols: "\<forall>c \<in> set cs. \<forall>m \<in> set all_metric. c m \<noteq> None"
  defines "notional \<equiv> (\<lambda>c. align2 fmul (get_metric_series c ''deal_amount'')
                                       (get_metric_series c ''trade_price''))"
  defines "inner \<equiv> map (\<lambda>c. assign ''trade_price'' (notional c) c) cs"
  defines "D \<equiv> sum_columns (Fin 0) (map (\<lambda>c. get_metric_series c ''deal_amount'') cs)"
  defines "P \<equiv> sum_columns (Fin 0) (map notional cs)"
  shows "\<exists>t'. agg_order_trade_info parse_dir cs t = Inr (inner, t') \<and>
              t' ''deal_amount'' = Some D \<and> t' ''trade_price'' = Some (price_func P D) \<and>
              t' ''trade_dir'' =
                Some (func_apply parse_dir
                        (sum_columns (Fin 0) (map (\<lambda>c. get_metric_series c ''trade_dir'') cs))) \<and>
              (\<forall>n. n \<notin> set all_metric \<longrightarrow> t' n = t n)"
proof -
  have c2: "\<forall>c \<in> set cs. c ''deal_amount'' \<noteq> None \<and> c ''trade_price'' \<noteq> None"
    using cols by (simp add: all_metric_def)
  have tta: "transfer_trade_amount cs = Inr inner"
    unfolding inner_def notional_def by (rule transfer_trade_amount_result[OF c2])
  have icols: "\<forall>c \<in> set inner. \<forall>m \<in> set all_metric. c m \<noteq> None"
    using cols by (auto simp: inner_def assign_def)
  let ?S = "\<lambda>m. sum_columns (Fin 0) (map (\<lambda>c. get_metric_series c m) inner)"
  have sai: "sum_all_indicators inner all_metric (Fin 0) = Inr (map (\<lambda>m. (m, ?S m)) all_metric)"
    by (rule sum_all_indicators_result[OF icols])
  have SD: "?S ''deal_amount'' = D"
    by (simp add: D_def inner_def comp_def get_metric_series_def assign_def)
  have SP: "?S ''trade_price'' = P"
    by (simp add: P_def inner_def comp_def get_metric_series_def assign_def)
  have ST: "?S ''trade_dir'' =
              sum_columns (Fin 0) (map (\<lambda>c. get_metric_series c ''trade_dir'') cs)"
    by (simp add: inner_def comp_def get_metric_series_def assign_def)
  define t1 where "t1 = assign_all (map (\<lambda>m. (m, ?S m)) all_metric) t"
  have t1: "t1 ''deal_amount'' = Some D" "t1 ''trade_price'' = Some P"
    "t1 ''trade_dir'' = Some (?S ''trade_dir'')" "\<forall>n. n \<notin> set all_metric \<longrightarrow> t1 n = t n"
    unfolding t1_def assign_all_tabulate using SD SP by (simp_all add: all_metric_def)
  define t2 where "t2 = assign ''trade_price'' (price_func P D) t1"
  have t2: "t2 ''trade_dir'' = Some (?S ''trade_dir'')" "t2 ''deal_amount'' = Some D"
    "t2 ''trade_price'' = Some (price_func P D)"
    using t1 by (simp_all add: t2_def assign_def)
  define t3 where "t3 = assign ''trade_dir'' (func_apply parse_dir (?S ''trade_dir'')) t2"
  have t3: "t3 ''deal_amount'' = Some D" "t3 ''trade_price'' = Some (price_func P D)"
    "t3 ''trade_dir'' = Some (func_apply parse_dir (?S ''trade_dir''))"
    "\<forall>n. n \<notin> set all_metric \<longrightarrow> t3 n = t n"
    using t2 t1(4) by (simp_all add: t3_def t2_def assign_def all_metric_def)
  have step2: "transfer_to (transfer2 price_func ''trade_price'' ''deal_amount'' t1)
                 ''trade_price'' t1 = Inr t2"
    using t1 by (simp add: transfer_to_def transfer2_def bindE_def column_def t2_def)
  have step3: "transfer_to (transfer1 (func_apply parse_dir) ''trade_dir'' t2)
                 ''trade_dir'' t2 = Inr t3"
    using t2 by (simp add: transfer_to_def transfer1_def bindE_def column_def t3_def)
  have run: "agg_order_trade_info parse_dir cs t = Inr (inner, t3)"
    by (simp add: agg_order_trade_info_def tta sai bindE_def Let_def t1_def[symmetric] step2 step3)
  with t3 show ?thesis
    unfolding ST by blast
qed

text \<open>
  Claim C1. For inner indicators that all hold the six summed columns, the
  aggregation writes \<open>deal_amount * trade_price\<close> into the column \<^verbatim>\<open>trade_price\<close> of each
  inner indicator, sums the deal amounts (\<open>D\<close>) and these products (\<open>P\<close>) over the inner
  indicators with 0 for a missing cell, and sets the trade price to \<open>P\<close> over \<open>D\<close> with
  the zeros of \<open>D\<close> replaced by the missing cell, so that no divisor is 0. For an
  instrument \<open>k\<close> on which every inner indicator has a finite deal amount and a finite
  trade price, the trade price of the step is the average of the trade prices
  weighted by the deal amounts, and missing when the deal amounts sum to 0.
\<close>

theorem aggregated_trade_price_weighted_average:
  assumes cols: "\<forall>c \<in> set cs. \<forall>m \<in> set all_metric. c m \<noteq> None"
    and known: "\<forall>c \<in> set cs. \<exists>d p.
                  sget (get_metric_series c ''deal_amount'') k = Fin d \<and>
                  sget (get_metric_series c ''trade_price'') k = Fin p"
    and ne: "cs \<noteq> []"
    and deal: "deal = (\<lambda>c. the_fin (sget (get_metric_series c ''deal_amount'') k))"
    and price: "price = (\<lambda>c. the_fin (sget (get_metric_series c ''trade_price'') k))"
  shows "\<exists>inner t' D P.
           agg_order_trade_info parse_dir cs t = Inr (inner, t') \<and>
           inner = map (\<lambda>c. assign ''trade_price''
                               (align2 fmul (get_metric_series c ''deal_amount'')
                                            (get_metric_series c ''trade_price'')) c) cs \<and>
           D = sum_columns (Fin 0) (map (\<lambda>c. get_metric_series c ''deal_amount'') cs) \<and>
           P = sum_columns (Fin 0)
                 (map (\<lambda>c. align2 fmul (get_metric_series c ''deal_amount'')
                                        (get_metric_series c ''trade_price'')) cs) \<and>
           t' ''deal_amount'' = Some D \<and>
           t' ''trade_price'' = Some (align2 fdiv P (replace (Fin 0) NaN D)) \<and>
           (\<forall>j. sget (replace (Fin 0) NaN D) j \<noteq> Fin 0) \<and>
           sget D k = Fin (\<Sum>c\<leftarrow>cs. deal c) \<and>
           sget P k = Fin (\<Sum>c\<leftarrow>cs. deal c * price c) \<and>
           sget (align2 fdiv P (replace (Fin 0) NaN D)) k =
             (if (\<Sum>c\<leftarrow>cs. deal c) = 0 then NaN
              else Fin ((\<Sum>c\<leftarrow>cs. deal c * price c) / (\<Sum>c\<leftarrow>cs. deal c)))"
proof -
  define notional where
    "notional = (\<lambda>c. align2 fmul (get_metric_series c ''deal_amount'')
                                 (get_metric_series c ''trade_price''))"
  define D where "D = sum_columns (Fin 0) (map (\<lambda>c. get_metric_series c ''deal_amount'') cs)"
  define P where "P = sum_columns (Fin 0) (map notional cs)"
  from agg_order_trade_info_result[OF cols, of parse_dir t]
  obtain t' where run: "agg_order_trade_info parse_dir cs t =
        Inr (map (\<lambda>c. assign ''trade_price'' (notional c) c) cs, t')"
    and tD: "t' ''deal_amount'' = Some D"
    and tP: "t' ''trade_price'' = Some (align2 fdiv P (replace (Fin 0) NaN D))"
    unfolding notional_def D_def P_def price_func_def Let_def by blast
  have cellD: "sget (get_metric_series c ''deal_amount'') k = Fin (deal c)"
    and cellP: "sget (get_metric_series c ''trade_price'') k = Fin (price c)"
    if "c \<in> set cs" for c
    using known that by (auto simp: deal price)
  have inD: "k \<in> set (keys (get_metric_series c ''deal_amount''))" if "c \<in> set cs" for c
    using cellD[OF that] by (intro sget_present) simp
  have cellN: "sget (notional c) k = Fin (deal c * price c)" if "c \<in> set cs" for c
    using cellD[OF that] cellP[OF that] inD[OF that] by (simp add: notional_def sget_align2)
  have inN: "k \<in> set (keys (notional c))" if "c \<in> set cs" for c
    using cellN[OF that] by (intro sget_present) simp
  from ne obtain c0 where c0: "c0 \<in> set cs"
    by (cases cs) auto
  have sD: "sget D k = Fin (\<Sum>c\<leftarrow>cs. deal c)"
  proof -
    have eq: "map (\<lambda>c. fillna (Fin 0) (sget c k)) (map (\<lambda>c. get_metric_series c ''deal_amount'') cs) =
            map Fin (map deal cs)"
      using cellD by (simp add: fillna_def)
    have ex: "\<exists>c \<in> set (map (\<lambda>c. get_metric_series c ''deal_amount'') cs). k \<in> set (keys c)"
      using c0 inD by auto
    show ?thesis
      unfolding D_def sget_sum_columns by (simp only: eq ex if_True fsum_Fin)
  qed
  have sP: "sget P k = Fin (\<Sum>c\<leftarrow>cs. deal c * price c)"
  proof -
    have eq: "map (\<lambda>c. fillna (Fin 0) (sget c k)) (map notional cs) =
            map Fin (map (\<lambda>c. deal c * price c) cs)"
      using cellN by (simp add: fillna_def)
    have ex: "\<exists>c \<in> set (map notional cs). k \<in> set (keys c)"
      using c0 inN by auto
    show ?thesis
      unfolding P_def sget_sum_columns by (simp only: eq ex if_True fsum_Fin)
  qed
  have nz: "sget (replace (Fin 0) NaN D) j \<noteq> Fin 0" for j
    by (simp add: sget_replace)
  have kD: "k \<in> set (keys D)"
    using sD by (intro sget_present) simp
  have avg: "sget (align2 fdiv P (replace (Fin 0) NaN D)) k =
             (if (\<Sum>c\<leftarrow>cs. deal c) = 0 then NaN
              else Fin ((\<Sum>c\<leftarrow>cs. deal c * price c) / (\<Sum>c\<leftarrow>cs. deal c)))"
    using kD by (simp add: sget_align2 sget_replace keys_replace sD sP)
  from run tD tP nz sD sP avg show ?thesis
    unfolding notional_def D_def P_def by blast
qed

theorem aggregated_trade_price_weighted_average_witness:
  "\<exists>inner t'.
     agg_order_trade_info (\<lambda>d. d)
       [Map.empty(''inner_amount'' \<mapsto> [(''A'', Fin 2)], ''deal_amount'' \<mapsto> [(''A'', Fin 2)],
                  ''trade_price'' \<mapsto> [(''A'', Fin 10)], ''trade_value'' \<mapsto> [(''A'', Fin 20)],
                  ''trade_cost'' \<mapsto> [(''A'', Fin 0)], ''trade_dir'' \<mapsto> [(''A'', Fin 1)]),
        Map.empty(''inner_amount'' \<mapsto> [(''A'', Fin 3)], ''deal_amount'' \<mapsto> [(''A'', Fin 3)],
                  ''trade_price'' \<mapsto> [(''A'', Fin 20)], ''trade_value'' \<mapsto> [(''A'', Fin 60)],
                  ''trade_cost'' \<mapsto> [(''A'', Fin 0)], ''trade_dir'' \<mapsto> [(''A'', Fin 1)])]
       Map.empty = Inr (inner, t') \<and>
     sget (get_metric_series t' ''deal_amount'') ''A'' = Fin 5 \<and>
     sget (get_metric_series t' ''trade_price'') ''A'' = Fin 16"
proof -
  let ?c1 = "Map.empty(''inner_amount'' \<mapsto> [(''A'', Fin 2)], ''deal_amount'' \<mapsto> [(''A'', Fin 2)],
                  ''trade_price'' \<mapsto> [(''A'', Fin 10)], ''trade_value'' \<mapsto> [(''A'', Fin 20)],
                  ''trade_cost'' \<mapsto> [(''A'', Fin 0)], ''trade_dir'' \<mapsto> [(''A'', Fin 1)])"
  let ?c2 = "Map.empty(''inner_amount'' \<mapsto> [(''A'', Fin 3)], ''deal_amount'' \<mapsto> [(''A'', Fin 3)],
                  ''trade_price'' \<mapsto> [(''A'', Fin 20)], ''trade_value'' \<mapsto> [(''A'', Fin 60)],
                  ''trade_cost'' \<mapsto> [(''A'', Fin 0)], ''trade_dir'' \<mapsto> [(''A'', Fin 1)])"
  let ?deal = "\<lambda>c. the_fin (sget (get_metric_series c ''deal_amount'') ''A'')"
  let ?price = "\<lambda>c. the_fin (sget (get_metric_series c ''trade_price'') ''A'')"
  have cols: "\<forall>c \<in> set [?c1, ?c2]. \<forall>m \<in> set all_metric. c m \<noteq> None"
    by (simp add: all_metric_def)
  have known: "\<forall>c \<in> set [?c1, ?c2]. \<exists>d p.
                  sget (get_metric_series c ''deal_amount'') ''A'' = Fin d \<and>
                  sget (get_metric_series c ''trade_price'') ''A'' = Fin p"
    by (simp add: get_metric_series_def sget_def)
  from aggregated_trade_price_weighted_average[OF cols known _ refl refl, of "\<lambda>d. d" Map.empty]
  obtain inner t' D P where run: "agg_order_trade_info (\<lambda>d. d) [?c1, ?c2] Map.empty = Inr (inner, t')"
    and tD: "t' ''deal_amount'' = Some D"
    and tP: "t' ''trade_price'' = Some (align2 fdiv P (replace (Fin 0) NaN D))"
    and sD: "sget D ''A'' = Fin (\<Sum>c\<leftarrow>[?c1, ?c2]. ?deal c)"
    and avg: "sget (align2 fdiv P (replace (Fin 0) NaN D)) ''A'' =
             (if (\<Sum>c\<leftarrow>[?c1, ?c2]. ?deal c) = 0 then NaN
              else Fin ((\<Sum>c\<leftarrow>[?c1, ?c2]. ?deal c * ?price c) / (\<Sum>c\<leftarrow>[?c1, ?c2]. ?deal c)))"
    by blast
  have gD: "get_metric_series t' ''deal_amount'' = D"
    and gP: "get_metric_series t' ''trade_price'' = align2 fdiv P (replace (Fin 0) NaN D)"
    using tD tP by (simp_all add: get_metric_series_def)
  have "sget (get_metric_series t' ''deal_amount'') ''A'' = Fin 5"
    unfolding gD using sD by (simp add: get_metric_series_def sget_def)
  moreover have "sget (get_metric_series t' ''trade_price'') ''A'' = Fin 16"
    unfolding gP using avg by (simp add: get_metric_series_def sget_def)
  ultimately show ?thesis
    using run by blast
qed

section \<open>A step without outer orders\<close>

lemma sum_columns_empty: "\<forall>c \<in> set cols. c = [] \<Longrightarrow> sum_columns fill_value cols = []"
proof -
  assume "\<forall>c \<in> set cols. c = []"
  then have "foldl union_index acc (map keys cols) = acc" for acc :: "inst list"
    by (induction cols arbitrary: acc) (simp_all add: keys_def union_index_def)
  then show ?thesis
    by (simp add: sum_columns_def)
qed

lemma update_order_fulfill_rate_keeps:
  "update_order_fulfill_rate t = Inr t' \<Longrightarrow> n \<noteq> ''ffr'' \<Longrightarrow> t' n = t n"
  by (auto simp: update_order_fulfill_rate_def transfer_to_def transfer2_def bindE_def column_def
        assign_def split: option.splits sum.splits)

lemma agg_base_price_keeps:
  "agg_base_price cs decs ex cfg t = Inr t' \<Longrightarrow> n \<noteq> ''base_price'' \<Longrightarrow> n \<noteq> ''base_volume'' \<Longrightarrow>
   t' n = t n"
  by (auto simp: agg_base_price_def bindE_def assign_def Let_def
        split: sum.splits if_splits prod.splits)

lemma agg_order_price_advantage_keeps:
  "agg_order_price_advantage t = Inr t' \<Longrightarrow> n \<noteq> ''pa'' \<Longrightarrow> t' n = t n"
  by (auto simp: agg_order_price_advantage_def transfer_to_def transfer1_def transfer3_def bindE_def
        column_def assign_def split: option.splits sum.splits if_splits)

lemma agg_order_indicators_amount:
  assumes "agg_order_indicators parse_dir cs decs outer ex cfg t = Inr (inner, t')"
  shows "t' ''amount'' = update_trade_amount outer Map.empty ''amount''"
proof -
  from assms obtain t1 t3 t4 where
      "update_order_fulfill_rate (update_trade_amount outer t1) = Inr t3"
      and "agg_base_price inner decs ex (get_pa_config cfg) t3 = Inr t4"
      and "agg_order_price_advantage t4 = Inr t'"
    by (auto simp: agg_order_indicators_def bindE_def Let_def split: sum.splits prod.splits)
  then have "t' ''amount'' = update_trade_amount outer t1 ''amount''"
    using update_order_fulfill_rate_keeps[of "update_trade_amount outer t1" t3 "''amount''"]
      agg_base_price_keeps[of inner decs ex "get_pa_config cfg" t3 t4 "''amount''"]
      agg_order_price_advantage_keeps[of t4 t' "''amount''"]
    by simp
  then show ?thesis
    by (simp add: update_trade_amount_def assign_def Let_def)
qed

lemma agg_order_indicators_no_trade:
  assumes e: "\<forall>c \<in> set cs. \<forall>m \<in> set all_metric. c m = Some []"
  shows "\<exists>inner t'. agg_order_indicators parse_dir cs decs outer ex cfg t = Inr (inner, t') \<and>
           t' ''pa'' = Some [] \<and> t' ''deal_amount'' = Some [] \<and>
           t' ''amount'' = update_trade_amount outer Map.empty ''amount''"
proof -
  have cols: "\<forall>c \<in> set cs. \<forall>m \<in> set all_metric. c m \<noteq> None"
    using e by fastforce
  have g: "get_metric_series c m = []" if "c \<in> set cs" "m \<in> set all_metric" for c m
  proof -
    from e that have "c m = Some []" by blast
    then show ?thesis by (simp add: get_metric_series_def)
  qed
  have D: "sum_columns (Fin 0) (map (\<lambda>c. get_metric_series c ''deal_amount'') cs) = []"
    by (rule sum_columns_empty) (auto simp: g all_metric_def)
  have T: "sum_columns (Fin 0) (map (\<lambda>c. get_metric_series c ''trade_dir'') cs) = []"
    by (rule sum_columns_empty) (auto simp: g all_metric_def)
  have P: "sum_columns (Fin 0)
             (map (\<lambda>c. align2 fmul (get_metric_series c ''deal_amount'')
                                    (get_metric_series c ''trade_price'')) cs) = []"
    by (rule sum_columns_empty) (auto simp: g all_metric_def align2_def union_index_def keys_def)
  from agg_order_trade_info_result[OF cols, of parse_dir t]
  obtain inner t1 where run1: "agg_order_trade_info parse_dir cs t = Inr (inner, t1)"
    and t1: "t1 ''deal_amount'' = Some []" "t1 ''trade_price'' = Some []" "t1 ''trade_dir'' = Some []"
    unfolding D T P
    by (auto simp: price_func_def func_apply_def align2_def union_index_def keys_def replace_def
          smap_def)
  define t2 where "t2 = update_trade_amount outer t1"
  have t2: "t2 ''deal_amount'' = Some []" "t2 ''trade_price'' = Some []" "t2 ''trade_dir'' = Some []"
    "t2 ''amount'' \<noteq> None"
    using t1 by (simp_all add: t2_def update_trade_amount_def assign_def Let_def)
  from t2(4) obtain a where a: "t2 ''amount'' = Some a"
    by blast
  define t3 where "t3 = assign ''ffr'' (ffr_func [] a) t2"
  have run3: "update_order_fulfill_rate t2 = Inr t3"
    using t2(1) a by (simp add: update_order_fulfill_rate_cells(1) t3_def)
  have t3: "t3 ''deal_amount'' = Some []" "t3 ''trade_price'' = Some []" "t3 ''trade_dir'' = Some []"
    using t2 by (simp_all add: t3_def assign_def)
  have run4: "agg_base_price inner decs ex (get_pa_config cfg) t3 = Inr t3"
    using t3(3) by (simp add: agg_base_price_def get_metric_series_def)
  have run5: "agg_order_price_advantage t3 = Inr (assign ''pa'' [] t3)"
    using t3(2)
    by (simp add: agg_order_price_advantage_def transfer1_def bindE_def column_def if_empty_func_def)
  have run: "agg_order_indicators parse_dir cs decs outer ex cfg t = Inr (inner, assign ''pa'' [] t3)"
    by (simp add: agg_order_indicators_def run1 bindE_def Let_def t2_def[symmetric] run3 run4 run5)
  moreover have "assign ''pa'' [] t3 ''pa'' = Some []" "assign ''pa'' [] t3 ''deal_amount'' = Some []"
    using t3(1) by (simp_all add: assign_def)
  ultimately show ?thesis
    using agg_order_indicators_amount[OF run] by blast
qed

text \<open>
  The entries \<^verbatim>\<open>count\<close> and \<^verbatim>\<open>deal_amount\<close> of the summary of a step are what
  \<open>cal_trade_order_count\<close> and \<open>cal_deal_amount\<close> return on the table of the step.
\<close>

lemma cal_trade_indicators_entries:
  assumes "cal_trade_indicators cfg self = Inr self'"
  shows "\<exists>c d. cal_trade_order_count (order_indicator self) = Inr c \<and>
               cal_deal_amount (order_indicator self) = Inr d \<and>
               map_of (trade_indicator self') ''count'' = Some c \<and>
               map_of (trade_indicator self') ''deal_amount'' = Some d"
  using assms
  by (auto simp: cal_trade_indicators_def bindE_def Let_def map_of_od_set split: sum.splits)

text \<open>
  Claim C6, as the code has it. When the outer decision has no order, every
  aggregation that returns has set the column \<^verbatim>\<open>amount\<close> to the empty column, whatever
  the inner indicators hold, and the order count of the summary is 0. When moreover
  the six summed columns of every inner indicator are empty (no inner trade), the
  aggregation returns, the column \<^verbatim>\<open>pa\<close> is assigned the empty column without any
  division, and the deal amount of the summary is 0.
\<close>

theorem empty_outer_decision:
  assumes "get_decision outer = []"
  shows "(\<forall>inner t'. agg_order_indicators parse_dir cs decs outer ex cfg t = Inr (inner, t') \<longrightarrow>
            t' ''amount'' = Some [] \<and> cal_trade_order_count t' = Inr (Fin 0)) \<and>
         ((\<forall>c \<in> set cs. \<forall>m \<in> set all_metric. c m = Some []) \<longrightarrow>
            (\<exists>inner t'. agg_order_indicators parse_dir cs decs outer ex cfg t = Inr (inner, t') \<and>
               t' ''amount'' = Some [] \<and> t' ''pa'' = Some [] \<and>
               cal_trade_order_count t' = Inr (Fin 0) \<and> cal_deal_amount t' = Inr (Fin 0)))"
proof -
  have am: "update_trade_amount outer Map.empty ''amount'' = Some []"
    using assms by (simp add: update_trade_amount_def assign_def)
  have cnt: "cal_trade_order_count t' = Inr (Fin 0)" if "t' ''amount'' = Some []" for t'
    using that
    by (simp add: cal_trade_order_count_def transfer1_def bindE_def column_def scount_def notna_def)
  have dl: "cal_deal_amount t' = Inr (Fin 0)" if "t' ''deal_amount'' = Some []" for t'
    using that
    by (simp add: cal_deal_amount_def transfer1_def bindE_def column_def ssum_def notna_def
          smap_def fsum_def)
  have a: "t' ''amount'' = Some [] \<and> cal_trade_order_count t' = Inr (Fin 0)"
    if "agg_order_indicators parse_dir cs decs outer ex cfg t = Inr (inner, t')" for inner t'
    using agg_order_indicators_amount[OF that] am cnt by simp
  have b: "\<exists>inner t'. agg_order_indicators parse_dir cs decs outer ex cfg t = Inr (inner, t') \<and>
               t' ''amount'' = Some [] \<and> t' ''pa'' = Some [] \<and>
               cal_trade_order_count t' = Inr (Fin 0) \<and> cal_deal_amount t' = Inr (Fin 0)"
    if "\<forall>c \<in> set cs. \<forall>m \<in> set all_metric. c m = Some []"
    using agg_order_indicators_no_trade[OF that, of parse_dir decs outer ex cfg t] am cnt dl
    by (metis a)
  from a b show ?thesis
    by blast
qed

theorem empty_outer_decision_witness:
  "\<exists>inner t'.
     agg_order_indicators (\<lambda>d. d)
       [Map.empty(''inner_amount'' \<mapsto> [], ''deal_amount'' \<mapsto> [], ''trade_price'' \<mapsto> [],
                  ''trade_value'' \<mapsto> [], ''trade_cost'' \<mapsto> [], ''trade_dir'' \<mapsto> [])]
       [(\<lparr>get_decision = [], trade_range = None\<rparr>, 0, 10)]
       \<lparr>get_decision = [], trade_range = None\<rparr>
       \<lparr>get_deal_price = (\<lambda>i s e d. Scalar (Fin 8)), get_volume = (\<lambda>i s e. [])\<rparr>
       \<lparr>ffr_weight_method_opt = None, pa_config_opt = None\<rparr> Map.empty = Inr (inner, t') \<and>
     t' ''amount'' = Some [] \<and> t' ''pa'' = Some [] \<and>
     cal_trade_order_count t' = Inr (Fin 0) \<and> cal_deal_amount t' = Inr (Fin 0)"
proof -
  let ?c = "Map.empty(''inner_amount'' \<mapsto> [], ''deal_amount'' \<mapsto> [], ''trade_price'' \<mapsto> [],
                  ''trade_value'' \<mapsto> [], ''trade_cost'' \<mapsto> [], ''trade_dir'' \<mapsto> []) :: table"
  have h: "\<forall>c \<in> set [?c]. \<forall>m \<in> set all_metric. c m = Some []"
    by (simp add: all_metric_def)
  have d: "get_decision \<lparr>get_decision = [], trade_range = None\<rparr> = []"
    by simp
  from empty_outer_decision[OF d, of "\<lambda>d. d" "[?c]"
         "[(\<lparr>get_decision = [], trade_range = None\<rparr>, 0, 10)]"
         "\<lparr>get_deal_price = (\<lambda>i s e d. Scalar (Fin 8)), get_volume = (\<lambda>i s e. [])\<rparr>"
         "\<lparr>ffr_weight_method_opt = None, pa_config_opt = None\<rparr>" Map.empty] h
  show ?thesis
    by blast
qed

text \<open>
  The claim C6 as it is written fails: whether \<^verbatim>\<open>pa\<close> is computed depends on the
  aggregated column \<^verbatim>\<open>trade_price\<close>, which comes from the inner indicators, not on the
  outer decision. With no outer order and one inner indicator of the innermost level
  that traded 5 of \<open>A\<close> at the price 10 (baseline price 8), the column \<^verbatim>\<open>amount\<close> is
  empty and the count is 0, but \<^verbatim>\<open>pa\<close> is computed (\<open>-0.25\<close> for \<open>A\<close>) and the deal amount
  of the summary is 5.
\<close>

theorem empty_outer_decision_counterexample:
  "bindE (update_order_indicators
            [(\<lparr>stock_id = ''A'', amount_delta = Fin 5, deal_amount_delta = Fin 5,
               direction = Fin 1, sign = Fin 1\<rparr>, Fin 50, Fin 0, Fin 10)] Map.empty) (\<lambda>child.
     bindE (agg_order_indicators (\<lambda>d. d) [child]
              [(\<lparr>get_decision = [], trade_range = None\<rparr>, 0, 10)]
              \<lparr>get_decision = [], trade_range = None\<rparr>
              \<lparr>get_deal_price = (\<lambda>i s e d. Scalar (Fin 8)), get_volume = (\<lambda>i s e. [])\<rparr>
              \<lparr>ffr_weight_method_opt = None, pa_config_opt = None\<rparr> Map.empty)
       (\<lambda>(inner, t). Inr (t ''amount'', t ''pa'', cal_trade_order_count t, cal_deal_amount t)))
   = Inr (Some [], Some [(''A'', Fin (- (1 / 4)))], Inr (Fin 0), Inr (Fin 5))"
  by code_simp

end
